theory Spec2Isabelle
  imports Main "HOL-Library.Word"
begin

unbundle bit_operations_syntax

section \<open>Go library functions used by the plugin\<close>

subsection \<open>Package strings\<close>

text \<open>Go strings are byte sequences; \<^typ>\<open>string\<close> is a list of bytes.\<close>

definition HasPrefix :: "string \<Rightarrow> string \<Rightarrow> bool" where
  "HasPrefix s p = (length p \<le> length s \<and> take (length p) s = p)"

fun Contains :: "string \<Rightarrow> string \<Rightarrow> bool" where
  "Contains [] sub = (sub = [])"
| "Contains (c # s) sub = (HasPrefix (c # s) sub \<or> Contains s sub)"

definition TrimPrefix :: "string \<Rightarrow> string \<Rightarrow> string" where
  "TrimPrefix s p = (if HasPrefix s p then drop (length p) s else s)"

fun Join :: "string list \<Rightarrow> string \<Rightarrow> string" where
  "Join [] sep = []"
| "Join [x] sep = x"
| "Join (x # y # xs) sep = x @ sep @ Join (y # xs) sep"

subsection \<open>Package fmt: the verb \<open>%d\<close>\<close>

definition digit :: "nat \<Rightarrow> char" where
  "digit d = char_of (48 + d)"

fun decimal :: "nat \<Rightarrow> string" where
  "decimal n = (if n < 10 then [digit n] else decimal (n div 10) @ [digit (n mod 10)])"

declare decimal.simps [simp del]

definition Sprintf_d :: "int \<Rightarrow> string" where
  "Sprintf_d i = (if i < 0 then CHR ''-'' # decimal (nat (- i)) else decimal (nat i))"

subsection \<open>Package path/filepath (Unix: the separator is \<open>/\<close>, no volume names)\<close>

definition Separator :: char where
  "Separator = CHR ''/''"

definition IsPathSeparator :: "char \<Rightarrow> bool" where
  "IsPathSeparator c = (c = Separator)"

definition IsAbs :: "string \<Rightarrow> bool" where
  "IsAbs path = HasPrefix path ''/''"

text \<open>\<open>Clean\<close> writes into a buffer \<open>out\<close> (of length \<open>out.w\<close>) while reading \<open>path\<close> from
  index \<open>r\<close>; \<open>dotdot\<close> is the index in the buffer where \<open>..\<close> must stop. Here the buffer
  is the list \<open>out\<close>, \<open>out.w\<close> is its length, and the loop's argument is the unread rest
  \<open>path[r:]\<close>.

  \<open>backtrack\<close> is the inner loop of the \<open>..\<close> case, after \<open>out.w--\<close>:
  \<^verbatim>\<open>for out.w > dotdot && !os.IsPathSeparator(out.index(out.w)) { out.w-- }\<close>\<close>

fun backtrack :: "nat \<Rightarrow> string \<Rightarrow> nat \<Rightarrow> nat" where
  "backtrack dotdot buf w =
     (if dotdot < w \<and> \<not> IsPathSeparator (buf ! w) then backtrack dotdot buf (w - 1) else w)"

declare backtrack.simps [simp del]

function clean_loop :: "bool \<Rightarrow> string \<Rightarrow> string \<Rightarrow> nat \<Rightarrow> string" where
  "clean_loop rooted [] out dotdot = out"
| "clean_loop rooted (c # rest) out dotdot =
     (if IsPathSeparator c then
        \<comment> \<open>empty path element\<close>
        clean_loop rooted rest out dotdot
      else if c = CHR ''.'' \<and> (rest = [] \<or> IsPathSeparator (hd rest)) then
        \<comment> \<open>. element\<close>
        clean_loop rooted rest out dotdot
      else if c = CHR ''.'' \<and> hd rest = CHR ''.''
              \<and> (tl rest = [] \<or> IsPathSeparator (hd (tl rest))) then
        \<comment> \<open>.. element: remove to last separator\<close>
        (if dotdot < length out then
           \<comment> \<open>can backtrack\<close>
           clean_loop rooted (tl rest) (take (backtrack dotdot out (length out - 1)) out) dotdot
         else if \<not> rooted then
           \<comment> \<open>cannot backtrack, but not rooted, so append .. element\<close>
           (let out' = (if 0 < length out then out @ [Separator] else out) @ ''..''
            in clean_loop rooted (tl rest) out' (length out'))
         else clean_loop rooted (tl rest) out dotdot)
      else
        \<comment> \<open>real path element: add slash if needed, copy element\<close>
        (let out' = (if rooted \<and> length out \<noteq> 1 \<or> \<not> rooted \<and> length out \<noteq> 0
                     then out @ [Separator] else out)
         in clean_loop rooted (dropWhile (\<lambda>x. \<not> IsPathSeparator x) rest)
              (out' @ c # takeWhile (\<lambda>x. \<not> IsPathSeparator x) rest) dotdot))"
  by pat_completeness auto
termination
  by (relation "measure (\<lambda>(rooted, path, out, dotdot). length path)")
     (auto simp: less_Suc_eq_le length_dropWhile_le)

declare clean_loop.simps [simp del]

definition Clean :: "string \<Rightarrow> string" where
  "Clean path =
     (if path = '''' then ''.''
      else
        let rooted = IsPathSeparator (hd path);
            out = (if rooted then clean_loop True (tl path) [Separator] 1
                   else clean_loop False path [] 0)
        in if length out = 0 then ''.'' else out)"

text \<open>\<open>Dir\<close>: \<open>i\<close> runs down from \<open>len(path) - 1\<close> to the last separator; the directory is
  \<open>Clean(path[:i+1])\<close>. \<open>dir_scan path k\<close> is \<open>i + 1\<close> when the loop starts at \<open>i = k - 1\<close>.\<close>

fun dir_scan :: "string \<Rightarrow> nat \<Rightarrow> nat" where
  "dir_scan path 0 = 0"
| "dir_scan path (Suc i) = (if IsPathSeparator (path ! i) then Suc i else dir_scan path i)"

definition Dir :: "string \<Rightarrow> string" where
  "Dir path = Clean (take (dir_scan path (length path)) path)"

subsection \<open>Package regexp: the one pattern the plugin compiles\<close>

text \<open>\<^verbatim>\<open>^[a-zA-Z][a-zA-Z0-9.-]*$\<close> without flags: the whole text is one ASCII letter
  followed by any number of ASCII letters, digits, dots and dashes.\<close>

definition is_letter :: "char \<Rightarrow> bool" where
  "is_letter c = (c \<in> set ''abcdefghijklmnopqrstuvwxyzABCDEFGHIJKLMNOPQRSTUVWXYZ'')"

definition is_digit :: "char \<Rightarrow> bool" where
  "is_digit c = (c \<in> set ''0123456789'')"

definition validName_MatchString :: "string \<Rightarrow> bool" where
  "validName_MatchString s =
     (case s of
        [] \<Rightarrow> False
      | c # cs \<Rightarrow> is_letter c
          \<and> list_all (\<lambda>x. is_letter x \<or> is_digit x \<or> x = CHR ''.'' \<or> x = CHR ''-'') cs)"

subsection \<open>Package net/url\<close>

text \<open>The fields of \<open>url.URL\<close> that the plugin reads. \<open>url.Parse\<close> itself is an input of
  the model (see \<open>Env\<close> below); \<open>Hostname\<close> is the library's \<open>splitHostPort\<close>: a valid
  \<open>:port\<close> suffix is cut off, then the square brackets of an IP literal.\<close>

record URL =
  Scheme :: string
  Host :: string

definition validOptionalPort :: "string \<Rightarrow> bool" where
  "validOptionalPort port =
     (case port of
        [] \<Rightarrow> True
      | c # ds \<Rightarrow> c = CHR '':'' \<and> list_all is_digit ds)"

fun LastIndexByte :: "string \<Rightarrow> char \<Rightarrow> nat option" where
  "LastIndexByte [] c = None"
| "LastIndexByte (x # xs) c =
     (case LastIndexByte xs c of
        Some i \<Rightarrow> Some (Suc i)
      | None \<Rightarrow> if x = c then Some 0 else None)"

definition HasSuffix :: "string \<Rightarrow> string \<Rightarrow> bool" where
  "HasSuffix s suffix =
     (length suffix \<le> length s \<and> drop (length s - length suffix) s = suffix)"

definition Hostname :: "URL \<Rightarrow> string" where
  "Hostname u =
     (let host = Host u;
          host = (case LastIndexByte host CHR '':'' of
                    Some colon \<Rightarrow>
                      if validOptionalPort (drop colon host) then take colon host else host
                  | None \<Rightarrow> host)
      in if HasPrefix host ''['' \<and> HasSuffix host '']'' then butlast (tl host) else host)"

subsection \<open>Package net: IP addresses\<close>

text \<open>\<open>net.IP\<close> and \<open>net.IPMask\<close> are byte slices, of length 4 (IPv4) or 16 (IPv6, or IPv4
  in its IPv4-mapped form).\<close>

type_synonym byte = "8 word"
type_synonym IP = "byte list"
type_synonym IPMask = "byte list"

record IPNet =
  IP :: IP
  Mask :: IPMask

definition To4 :: "IP \<Rightarrow> IP option" where
  "To4 ip =
     (if length ip = 4 then Some ip
      else if length ip = 16 \<and> list_all (\<lambda>b. b = 0) (take 10 ip)
              \<and> ip ! 10 = 0xff \<and> ip ! 11 = 0xff
      then Some (drop 12 ip)
      else None)"

definition IPv6loopback :: IP where
  "IPv6loopback = [0, 0, 0, 0, 0, 0, 0, 0, 0, 0, 0, 0, 0, 0, 0, 1]"

definition v4InV6Prefix :: IP where
  "v4InV6Prefix = [0, 0, 0, 0, 0, 0, 0, 0, 0, 0, 0xff, 0xff]"

definition IP_Equal :: "IP \<Rightarrow> IP \<Rightarrow> bool" where
  "IP_Equal ip x =
     (if length ip = length x then ip = x
      else if length ip = 4 \<and> length x = 16 then take 12 x = v4InV6Prefix \<and> ip = drop 12 x
      else if length ip = 16 \<and> length x = 4 then take 12 ip = v4InV6Prefix \<and> drop 12 ip = x
      else False)"

definition IsLoopback :: "IP \<Rightarrow> bool" where
  "IsLoopback ip =
     (case To4 ip of
        Some ip4 \<Rightarrow> ip4 ! 0 = 127
      | None \<Rightarrow> IP_Equal ip IPv6loopback)"

definition IsLinkLocalUnicast :: "IP \<Rightarrow> bool" where
  "IsLinkLocalUnicast ip =
     (case To4 ip of
        Some ip4 \<Rightarrow> ip4 ! 0 = 169 \<and> ip4 ! 1 = 254
      | None \<Rightarrow> length ip = 16 \<and> ip ! 0 = 0xfe \<and> (ip ! 1) AND 0xc0 = 0x80)"

definition IsLinkLocalMulticast :: "IP \<Rightarrow> bool" where
  "IsLinkLocalMulticast ip =
     (case To4 ip of
        Some ip4 \<Rightarrow> ip4 ! 0 = 224 \<and> ip4 ! 1 = 0 \<and> ip4 ! 2 = 0
      | None \<Rightarrow> length ip = 16 \<and> ip ! 0 = 0xff \<and> (ip ! 1) AND 0x0f = 0x02)"

definition IsPrivate :: "IP \<Rightarrow> bool" where
  "IsPrivate ip =
     (case To4 ip of
        Some ip4 \<Rightarrow>
          ip4 ! 0 = 10
          \<or> (ip4 ! 0 = 172 \<and> (ip4 ! 1) AND 0xf0 = 16)
          \<or> (ip4 ! 0 = 192 \<and> ip4 ! 1 = 168)
      | None \<Rightarrow> length ip = 16 \<and> (ip ! 0) AND 0xfe = 0xfc)"

text \<open>\<open>CIDRMask(ones, bits)\<close>: \<open>bits / 8\<close> bytes, the first \<open>ones\<close> bits set. The argument
  \<open>l\<close> is the number of bytes still to write.\<close>

fun CIDRMask_bytes :: "nat \<Rightarrow> nat \<Rightarrow> IPMask" where
  "CIDRMask_bytes n 0 = []"
| "CIDRMask_bytes n (Suc l) =
     (if 8 \<le> n then 0xff # CIDRMask_bytes (n - 8) l
      else NOT (drop_bit n (0xff :: byte)) # CIDRMask_bytes 0 l)"

definition CIDRMask :: "nat \<Rightarrow> nat \<Rightarrow> IPMask" where
  "CIDRMask ones bits = CIDRMask_bytes ones (bits div 8)"

text \<open>\<open>ParseCIDR\<close> on the eight literals that \<open>isPrivateIP\<close> passes to it: the network
  address (already masked in each literal) and the mask of the prefix length. Any other
  text is not parsed here and yields the error value.\<close>

definition ParseCIDR :: "string \<Rightarrow> IPNet option" where
  "ParseCIDR s = map_of
     [(''10.0.0.0/8'', \<lparr>IP = [10, 0, 0, 0], Mask = CIDRMask 8 32\<rparr>),
      (''172.16.0.0/12'', \<lparr>IP = [172, 16, 0, 0], Mask = CIDRMask 12 32\<rparr>),
      (''192.168.0.0/16'', \<lparr>IP = [192, 168, 0, 0], Mask = CIDRMask 16 32\<rparr>),
      (''127.0.0.0/8'', \<lparr>IP = [127, 0, 0, 0], Mask = CIDRMask 8 32\<rparr>),
      (''169.254.0.0/16'', \<lparr>IP = [169, 254, 0, 0], Mask = CIDRMask 16 32\<rparr>),
      (''0.0.0.0/8'', \<lparr>IP = [0, 0, 0, 0], Mask = CIDRMask 8 32\<rparr>),
      (''169.254.169.254/32'', \<lparr>IP = [169, 254, 169, 254], Mask = CIDRMask 32 32\<rparr>),
      (''fd00:ec2::254/128'',
         \<lparr>IP = [0xfd, 0x00, 0x0e, 0xc2, 0, 0, 0, 0, 0, 0, 0, 0, 0, 0, 0x02, 0x54],
          Mask = CIDRMask 128 128\<rparr>)] s"

text \<open>\<open>IPNet.Contains\<close>, with \<open>networkNumberAndMask\<close>: both the network and the address are
  brought to their 4-byte form when they have one, and compared under the mask.\<close>

definition networkNumberAndMask :: "IPNet \<Rightarrow> (IP \<times> IPMask) option" where
  "networkNumberAndMask n =
     (case (case To4 (IP n) of
              Some ip4 \<Rightarrow> Some ip4
            | None \<Rightarrow> if length (IP n) \<noteq> 16 then None else Some (IP n)) of
        None \<Rightarrow> None
      | Some ip \<Rightarrow>
          let m = Mask n in
          if length m = 4 then (if length ip \<noteq> 4 then None else Some (ip, m))
          else if length m = 16 then (if length ip = 4 then Some (ip, drop 12 m) else Some (ip, m))
          else None)"

definition IPNet_Contains :: "IPNet \<Rightarrow> IP \<Rightarrow> bool" where
  "IPNet_Contains n ip =
     (case networkNumberAndMask n of
        None \<Rightarrow> False
      | Some (nn, m) \<Rightarrow>
          let ip = (case To4 ip of Some x \<Rightarrow> x | None \<Rightarrow> ip) in
          if length ip \<noteq> length nn then False
          else list_all (\<lambda>i. (nn ! i) AND (m ! i) = (ip ! i) AND (m ! i)) [0..<length ip])"

section \<open>The plugin's data\<close>

text \<open>The struct \<open>Config\<close> of plugin.go. \<open>Features\<close> is a slice; a nil slice and an
  empty one both have length 0 and are the empty list here. \<open>Jobs\<close> is a Go \<open>int\<close>; the
  code only compares it with 0 and prints it, so no arithmetic can overflow.\<close>

record Config =
  Token :: string
  Registry :: string
  AllowDirty :: bool
  NoVerify :: bool
  ManifestPath :: string
  Features :: "string list"
  AllFeatures :: bool
  NoDefaultFeatures :: bool
  Jobs :: int

text \<open>Values of type \<open>any\<close> as they occur in the configuration map and in the outputs
  of a response.\<close>

datatype any = Str string | Bool bool | Num int | Arr "any list"

type_synonym RawConfig = "string \<rightharpoonup> any"

text \<open>The SDK's \<open>helpers.ConfigParser\<close> is not part of this repository: the four getters
  that \<open>parseConfig\<close> calls are inputs of the model. \<open>GetString key envVar default\<close> may
  read the process environment.\<close>

record ConfigParser =
  GetString :: "string \<Rightarrow> string \<Rightarrow> string \<Rightarrow> string"
  GetBool :: "string \<Rightarrow> bool \<Rightarrow> bool"
  GetStringSlice :: "string \<Rightarrow> string list \<Rightarrow> string list"
  GetInt :: "string \<Rightarrow> int \<Rightarrow> int"

text \<open>The interface \<open>CommandExecutor\<close>: each method returns the combined output and an
  error (\<open>None\<close> is \<open>nil\<close>). The context argument is not modelled.\<close>

record CommandExecutor =
  Run :: "string \<Rightarrow> string list \<Rightarrow> string \<times> string option"
  RunInDir :: "string \<Rightarrow> string \<Rightarrow> string list \<Rightarrow> string \<times> string option"

text \<open>A call of the executor, as the tests' \<open>ExecutorCall\<close> records it:
  \<open>RunCall name args\<close> and \<open>RunInDirCall dir name args\<close>.\<close>

datatype ExecutorCall =
  RunCall string "string list"
| RunInDirCall string string "string list"

record CratesPlugin =
  cmdExecutor :: "CommandExecutor option"

text \<open>What the plugin takes from outside the repository: the SDK's configuration parser,
  \<open>url.Parse\<close>, \<open>net.LookupIP\<close> (each with \<open>Inl\<close> for an error) and the behaviour of the
  operating system behind \<open>RealCommandExecutor\<close>.\<close>

record Env =
  NewConfigParser :: "RawConfig \<Rightarrow> ConfigParser"
  url_Parse :: "string \<Rightarrow> string + URL"
  LookupIP :: "string \<Rightarrow> string + IP list"
  RealCommandExecutor :: CommandExecutor

text \<open>Modelled from the spec: the SDK's type \<open>plugin.Hook\<close> and its constant
  \<open>plugin.HookPostPublish\<close> are not in this repository. A hook is a string (the source
  prints it with \<open>%s\<close>); the tests expect \<open>pre-init\<close>, \<open>post-init\<close>, ... and \<open>pre-publish\<close> for
  its siblings. No property below depends on the text of the constant.\<close>

type_synonym Hook = string

definition HookPostPublish :: Hook where
  "HookPostPublish = ''post-publish''"

text \<open>Of the SDK's \<open>plugin.ReleaseContext\<close> the plugin reads the version only; of
  \<open>plugin.ExecuteRequest\<close> and \<open>plugin.ExecuteResponse\<close> it uses the fields below.\<close>

record ReleaseContext =
  Version :: string

record ExecuteRequest =
  Hook :: Hook
  Config :: RawConfig
  Context :: ReleaseContext
  DryRun :: bool

record ExecuteResponse =
  Success :: bool
  Message :: string
  Error :: string
  Outputs :: "string \<rightharpoonup> any"

section \<open>Command construction\<close>

text \<open>\<open>buildPublishArgs\<close>: the slice \<open>args\<close> starts as \<open>["publish"]\<close> and each \<open>if\<close> of the
  source appends to it in turn. \<open>append_if\<close> is one such statement
  \<open>if c { args = append(args, xs...) }\<close>.\<close>

definition append_if :: "bool \<Rightarrow> string list \<Rightarrow> string list \<Rightarrow> string list" where
  "append_if c xs args = (if c then args @ xs else args)"

definition buildPublishArgs :: "Config \<Rightarrow> string list" where
  "buildPublishArgs cfg =
    (let args = [''publish''];
         args = append_if (Token cfg \<noteq> '''') [''--token'', Token cfg] args;
         args = append_if (Registry cfg \<noteq> '''') [''--registry'', Registry cfg] args;
         args = append_if (AllowDirty cfg) [''--allow-dirty''] args;
         args = append_if (NoVerify cfg) [''--no-verify''] args;
         args = append_if (ManifestPath cfg \<noteq> '''' \<and> ManifestPath cfg \<noteq> ''Cargo.toml'')
                  [''--manifest-path'', ManifestPath cfg] args;
         args = append_if (length (Features cfg) > 0)
                  [''--features'', Join (Features cfg) '','']  args;
         args = append_if (AllFeatures cfg) [''--all-features''] args;
         args = append_if (NoDefaultFeatures cfg) [''--no-default-features''] args;
         args = append_if (Jobs cfg > 0) [''--jobs'', Sprintf_d (Jobs cfg)] args
     in args)"

text \<open>The reference sequence of the specification: the subcommand, then one segment per
  flag, present exactly when the flag's field is non-default, in the fixed order.\<close>

definition segment :: "bool \<Rightarrow> string list \<Rightarrow> string list" where
  "segment present xs = (if present then xs else [])"

definition reference_args :: "Config \<Rightarrow> string list" where
  "reference_args cfg =
     [''publish'']
     @ segment (Token cfg \<noteq> '''') [''--token'', Token cfg]
     @ segment (Registry cfg \<noteq> '''') [''--registry'', Registry cfg]
     @ segment (AllowDirty cfg) [''--allow-dirty'']
     @ segment (NoVerify cfg) [''--no-verify'']
     @ segment (ManifestPath cfg \<noteq> '''' \<and> ManifestPath cfg \<noteq> ''Cargo.toml'')
         [''--manifest-path'', ManifestPath cfg]
     @ segment (Features cfg \<noteq> []) [''--features'', Join (Features cfg) '','']
     @ segment (AllFeatures cfg) [''--all-features'']
     @ segment (NoDefaultFeatures cfg) [''--no-default-features'']
     @ segment (0 < Jobs cfg) [''--jobs'', decimal (nat (Jobs cfg))]"

section \<open>Validation\<close>

text \<open>A Go \<open>error\<close> result is \<open>Inl\<close> of its message; \<open>Inr ()\<close> is \<open>nil\<close>.\<close>

definition validatePath :: "string \<Rightarrow> string + unit" where
  "validatePath path =
     (if path = '''' then Inr ()
      else
        let cleaned = Clean path in
        if IsAbs cleaned then Inl ''absolute paths are not allowed''
        else if HasPrefix cleaned ''..'' \<or> Contains cleaned (Separator # ''..'')
        then Inl (''path traversal detected: cannot use '' @ [CHR 0x27] @ ''..'' @ [CHR 0x27]
                  @ '' to escape working directory'')
        else Inr ())"

definition allRanges :: "string list" where
  "allRanges =
     [''10.0.0.0/8'', ''172.16.0.0/12'', ''192.168.0.0/16'', ''127.0.0.0/8'',
      ''169.254.0.0/16'', ''0.0.0.0/8'']
     @ [''169.254.169.254/32'', ''fd00:ec2::254/128'']"

text \<open>The loop of \<open>isPrivateIP\<close> over the ranges: a range that does not parse is skipped,
  the first block that contains the address returns true.\<close>

fun in_ranges :: "string list \<Rightarrow> IP \<Rightarrow> bool" where
  "in_ranges [] ip = False"
| "in_ranges (cidr # rest) ip =
     (case ParseCIDR cidr of
        None \<Rightarrow> in_ranges rest ip
      | Some block \<Rightarrow> if IPNet_Contains block ip then True else in_ranges rest ip)"

definition isPrivateIP :: "IP \<Rightarrow> bool" where
  "isPrivateIP ip =
     (if in_ranges allRanges ip then True
      else if IsLoopback ip \<or> IsLinkLocalUnicast ip \<or> IsLinkLocalMulticast ip \<or> IsPrivate ip
      then True
      else False)"

text \<open>The loop of \<open>validateRegistryURL\<close> over the resolved addresses.\<close>

fun check_ips :: "IP list \<Rightarrow> string + unit" where
  "check_ips [] = Inr ()"
| "check_ips (ip # ips) =
     (if isPrivateIP ip then Inl ''URLs pointing to private networks are not allowed''
      else check_ips ips)"

text \<open>\<open>validateRegistryURL\<close>. The source nests the test for \<open>sparse+https\<close> inside the test
  \<open>Scheme != "https" && !isLocalhost\<close>; the error is returned when all three hold.\<close>

definition validateRegistryURL :: "Env \<Rightarrow> string \<Rightarrow> string + unit" where
  "validateRegistryURL env registryURL =
     (if \<not> Contains registryURL ''://'' then
        (if \<not> validName_MatchString registryURL then Inl ''invalid registry name format''
         else Inr ())
      else
        case url_Parse env registryURL of
          Inl err \<Rightarrow> Inl (''invalid URL: '' @ err)
        | Inr parsedURL \<Rightarrow>
            let host = Hostname parsedURL;
                isLocalhost = (host = ''localhost'' \<or> host = ''127.0.0.1'' \<or> host = ''::1'')
            in
            if Scheme parsedURL \<noteq> ''https'' \<and> \<not> isLocalhost
               \<and> Scheme parsedURL \<noteq> ''sparse+https''
            then Inl (''only HTTPS URLs are allowed (got '' @ Scheme parsedURL @ '')'')
            else if isLocalhost then Inr ()
            else
              case LookupIP env host of
                Inl err \<Rightarrow> Inr ()
              | Inr ips \<Rightarrow> check_ips ips)"

definition validateConfig :: "Env \<Rightarrow> Config \<Rightarrow> string + unit" where
  "validateConfig env cfg =
     (case validatePath (ManifestPath cfg) of
        Inl err \<Rightarrow> Inl (''invalid manifest_path: '' @ err)
      | Inr _ \<Rightarrow>
          if Registry cfg \<noteq> '''' then
            (case validateRegistryURL env (Registry cfg) of
               Inl err \<Rightarrow> Inl (''invalid registry: '' @ err)
             | Inr _ \<Rightarrow> Inr ())
          else Inr ())"

section \<open>Execution\<close>

definition getExecutor :: "Env \<Rightarrow> CratesPlugin \<Rightarrow> CommandExecutor" where
  "getExecutor env p =
     (case cmdExecutor p of
        Some e \<Rightarrow> e
      | None \<Rightarrow> RealCommandExecutor env)"

definition getRegistryName :: "Config \<Rightarrow> string" where
  "getRegistryName cfg = (if Registry cfg \<noteq> '''' then Registry cfg else ''crates.io'')"

definition parseConfig :: "ConfigParser \<Rightarrow> Config" where
  "parseConfig parser =
     \<lparr>Token = GetString parser ''token'' ''CARGO_REGISTRY_TOKEN'' '''',
      Registry = GetString parser ''registry'' '''' '''',
      AllowDirty = GetBool parser ''allow_dirty'' False,
      NoVerify = GetBool parser ''no_verify'' False,
      ManifestPath = GetString parser ''manifest_path'' '''' ''Cargo.toml'',
      Features = GetStringSlice parser ''features'' [],
      AllFeatures = GetBool parser ''all_features'' False,
      NoDefaultFeatures = GetBool parser ''no_default_features'' False,
      Jobs = GetInt parser ''jobs'' 0\<rparr>"

text \<open>\<open>publish\<close> returns its response together with the calls it made to the executor, in
  order. (Its Go \<open>error\<close> result is always \<open>nil\<close>.) A response field that the source leaves
  out has its zero value.\<close>

definition publish ::
  "Env \<Rightarrow> CratesPlugin \<Rightarrow> Config \<Rightarrow> ReleaseContext \<Rightarrow> bool \<Rightarrow> ExecuteResponse \<times> ExecutorCall list"
where
  "publish env p cfg releaseCtx dryRun =
     (case validateConfig env cfg of
        Inl err \<Rightarrow>
          (\<lparr>Success = False, Message = '''',
            Error = ''configuration validation failed: '' @ err, Outputs = Map.empty\<rparr>, [])
      | Inr _ \<Rightarrow>
          let args = buildPublishArgs cfg;
              version = TrimPrefix (Version releaseCtx) ''v''
          in
          if dryRun then
            (\<lparr>Success = True,
              Message = ''Would publish crate version '' @ version @ '' to '' @ getRegistryName cfg,
              Error = '''',
              Outputs = [''version'' \<mapsto> Str version,
                         ''registry'' \<mapsto> Str (Registry cfg),
                         ''manifest_path'' \<mapsto> Str (ManifestPath cfg),
                         ''allow_dirty'' \<mapsto> Bool (AllowDirty cfg),
                         ''no_verify'' \<mapsto> Bool (NoVerify cfg),
                         ''command'' \<mapsto> Str (''cargo publish '' @ Join args '' '')]\<rparr>, [])
          else if Token cfg = '''' then
            (\<lparr>Success = False, Message = '''',
              Error = ''no API token provided: set token in config or CARGO_REGISTRY_TOKEN environment variable'',
              Outputs = Map.empty\<rparr>, [])
          else
            let executor = getExecutor env p;
                workDir = (if ManifestPath cfg \<noteq> '''' \<and> ManifestPath cfg \<noteq> ''Cargo.toml''
                           then Dir (ManifestPath cfg) else '''');
                call = (if workDir \<noteq> '''' then RunInDirCall workDir ''cargo'' args
                        else RunCall ''cargo'' args);
                (output, err) = (if workDir \<noteq> '''' then RunInDir executor workDir ''cargo'' args
                                 else Run executor ''cargo'' args)
            in
            case err of
              Some e \<Rightarrow>
                (\<lparr>Success = False, Message = '''',
                  Error = ''cargo publish failed: '' @ e @ [CHR 0x0A] @ ''Output: '' @ output,
                  Outputs = Map.empty\<rparr>, [call])
            | None \<Rightarrow>
                (\<lparr>Success = True,
                  Message = ''Published crate version '' @ version @ '' to '' @ getRegistryName cfg,
                  Error = '''',
                  Outputs = [''version'' \<mapsto> Str version,
                             ''registry'' \<mapsto> Str (Registry cfg),
                             ''output'' \<mapsto> Str output]\<rparr>, [call]))"

definition Execute ::
  "Env \<Rightarrow> CratesPlugin \<Rightarrow> ExecuteRequest \<Rightarrow> ExecuteResponse \<times> ExecutorCall list"
where
  "Execute env p req =
     (let cfg = parseConfig (NewConfigParser env (Config req)) in
      if Hook req = HookPostPublish then publish env p cfg (Context req) (DryRun req)
      else
        (\<lparr>Success = True, Message = ''Hook '' @ Hook req @ '' not handled'',
          Error = '''', Outputs = Map.empty\<rparr>, []))"

section \<open>A concrete environment\<close>

text \<open>The general theorems below hold for every environment. The examples and witnesses
  run in this one.

  \<open>simple_url_Parse\<close> follows \<open>url.Parse\<close> on URLs written as
  \<open>scheme://host[:port][/path][?query][#fragment]\<close> with no userinfo, no IP literal in
  brackets and no percent-escape: the fragment and the query are cut off, \<open>getScheme\<close>
  splits at the first colon after a run of scheme characters, the scheme is lower-cased,
  and the authority runs from \<open>//\<close> to the next slash. An error carries the library's
  inner message, without the wrapper that names the operation and the URL. Outside that
  shape (a userinfo, a bracketed IP literal, a percent-escape) this model answers with
  an error of its own, which says nothing about the library.\<close>

fun getScheme_loop :: "string \<Rightarrow> nat \<Rightarrow> string \<Rightarrow> string + string \<times> string" where
  "getScheme_loop rawURL i [] = Inr ('''', rawURL)"
| "getScheme_loop rawURL i (c # cs) =
     (if is_letter c then getScheme_loop rawURL (Suc i) cs
      else if is_digit c \<or> c = CHR ''+'' \<or> c = CHR ''-'' \<or> c = CHR ''.'' then
        (if i = 0 then Inr ('''', rawURL) else getScheme_loop rawURL (Suc i) cs)
      else if c = CHR '':'' then
        (if i = 0 then Inl ''missing protocol scheme'' else Inr (take i rawURL, cs))
      else Inr ('''', rawURL))"

definition getScheme :: "string \<Rightarrow> string + string \<times> string" where
  "getScheme rawURL = getScheme_loop rawURL 0 rawURL"

definition ToLower_ascii :: "string \<Rightarrow> string" where
  "ToLower_ascii s =
     map (\<lambda>c. if c \<in> set ''ABCDEFGHIJKLMNOPQRSTUVWXYZ'' then char_of (of_char c + (32 :: nat))
               else c) s"

definition host_char :: "char \<Rightarrow> bool" where
  "host_char c =
     (is_letter c \<or> is_digit c \<or> c \<in> set ''-_.~!$&()*+,;=:<>]''
      \<or> c = CHR 0x27 \<or> c = CHR 0x22)"

definition simple_url_Parse :: "string \<Rightarrow> string + URL" where
  "simple_url_Parse rawURL =
     (let u = takeWhile (\<lambda>c. c \<noteq> CHR ''#'') rawURL in
      if list_ex (\<lambda>c. (of_char c :: nat) < 0x20 \<or> (of_char c :: nat) = 0x7f) u
      then Inl ''net/url: invalid control character in URL''
      else if list_ex (\<lambda>c. c \<in> set ''@%['') rawURL then Inl ''outside the modelled URLs''
      else
        case getScheme u of
          Inl err \<Rightarrow> Inl err
        | Inr (scheme, rest) \<Rightarrow>
            let scheme = ToLower_ascii scheme;
                rest = takeWhile (\<lambda>c. c \<noteq> CHR ''?'') rest
            in
            if scheme = '''' then Inl ''outside the modelled URLs''
            else if \<not> HasPrefix rest ''/'' then Inr \<lparr>Scheme = scheme, Host = ''''\<rparr>
            else if HasPrefix rest ''//'' then
              (let authority = takeWhile (\<lambda>c. c \<noteq> CHR ''/'') (drop 2 rest) in
               if \<not> list_all (\<lambda>c. host_char c \<or> 0x80 \<le> (of_char c :: nat)) authority
               then Inl ''invalid character in host name''
               else
                 case LastIndexByte authority CHR '':'' of
                   Some i \<Rightarrow>
                     if validOptionalPort (drop i authority)
                     then Inr \<lparr>Scheme = scheme, Host = authority\<rparr>
                     else Inl ''invalid port after host''
                 | None \<Rightarrow> Inr \<lparr>Scheme = scheme, Host = authority\<rparr>)
            else Inr \<lparr>Scheme = scheme, Host = ''''\<rparr>)"

text \<open>Modelled from the spec: the SDK's \<open>helpers.ConfigParser\<close>, which is not in this
  repository. A getter returns the map's value for the key when it is present with the
  right type; \<open>GetString\<close> then falls back to the named environment variable; otherwise
  the default is returned. \<open>environ\<close> is the process environment.\<close>

definition spec_ConfigParser :: "(string \<rightharpoonup> string) \<Rightarrow> RawConfig \<Rightarrow> ConfigParser" where
  "spec_ConfigParser environ raw =
     \<lparr>GetString = (\<lambda>key envVar def.
        case raw key of
          Some (Str v) \<Rightarrow> v
        | _ \<Rightarrow> (case (if envVar = '''' then None else environ envVar) of
                  Some v \<Rightarrow> v
                | None \<Rightarrow> def)),
      GetBool = (\<lambda>key def. case raw key of Some (Bool b) \<Rightarrow> b | _ \<Rightarrow> def),
      GetStringSlice = (\<lambda>key def.
        case raw key of
          Some (Arr vs) \<Rightarrow> concat (map (\<lambda>v. case v of Str s \<Rightarrow> [s] | _ \<Rightarrow> []) vs)
        | _ \<Rightarrow> def),
      GetInt = (\<lambda>key def. case raw key of Some (Num n) \<Rightarrow> n | _ \<Rightarrow> def)\<rparr>"

text \<open>The tests' \<open>MockCommandExecutor\<close> with no functions set: every call succeeds with
  the output \<open>success\<close>.\<close>

definition MockCommandExecutor :: CommandExecutor where
  "MockCommandExecutor =
     \<lparr>Run = (\<lambda>name args. (''success'', None)),
      RunInDir = (\<lambda>dir name args. (''success'', None))\<rparr>"

text \<open>\<open>example_env lookup\<close>: an empty process environment, the URL parser above, the
  resolver \<open>lookup\<close>.\<close>

definition example_env :: "(string \<Rightarrow> string + IP list) \<Rightarrow> Env" where
  "example_env lookup =
     \<lparr>NewConfigParser = spec_ConfigParser Map.empty,
      url_Parse = simple_url_Parse,
      LookupIP = lookup,
      RealCommandExecutor = MockCommandExecutor\<rparr>"

definition no_such_host :: "string \<Rightarrow> string + IP list" where
  "no_such_host host = Inl ''no such host''"

definition example_config :: Config where
  "example_config =
     \<lparr>Token = ''test-token'', Registry = '''', AllowDirty = False, NoVerify = False,
      ManifestPath = ''Cargo.toml'', Features = [], AllFeatures = False,
      NoDefaultFeatures = False, Jobs = 0\<rparr>"

text \<open>An executor that succeeds and reports what it was asked to do: the command, and
  the directory when one is given.\<close>

definition reporting_executor :: CommandExecutor where
  "reporting_executor =
     \<lparr>Run = (\<lambda>name args. (''ran '' @ name, None)),
      RunInDir = (\<lambda>dir name args. (''ran '' @ name @ '' in '' @ dir, None))\<rparr>"

text \<open>The end of \<open>publish\<close>: the response built from what the executor returned, its
  combined output and its error.\<close>

definition executed_response ::
  "Config \<Rightarrow> ReleaseContext \<Rightarrow> string \<times> string option \<Rightarrow> ExecuteResponse"
where
  "executed_response cfg releaseCtx result =
     (case result of
        (output, Some e) \<Rightarrow>
          \<lparr>Success = False, Message = '''',
           Error = ''cargo publish failed: '' @ e @ [CHR 0x0A] @ ''Output: '' @ output,
           Outputs = Map.empty\<rparr>
      | (output, None) \<Rightarrow>
          \<lparr>Success = True,
           Message = ''Published crate version '' @ TrimPrefix (Version releaseCtx) ''v''
                     @ '' to '' @ getRegistryName cfg,
           Error = '''',
           Outputs = [''version'' \<mapsto> Str (TrimPrefix (Version releaseCtx) ''v''),
                      ''registry'' \<mapsto> Str (Registry cfg),
                      ''output'' \<mapsto> Str output]\<rparr>)"

section \<open>Notions of the specification\<close>

text \<open>The segments of a path: the pieces between separators (\<open>strings.Split(path, "/")\<close>).\<close>

fun segments :: "string \<Rightarrow> string list" where
  "segments [] = [ []]"
| "segments (c # cs) =
     (if c = Separator then [] # segments cs
      else case segments cs of
             [] \<Rightarrow> [ [c]]
           | s # ss \<Rightarrow> (c # s) # ss)"

text \<open>The rejected paths as the specification describes them: absolute, or the cleaned
  form starts with the segment \<open>..\<close>, or contains a segment \<open>..\<close>.\<close>

definition rejected_as_specified :: "string \<Rightarrow> bool" where
  "rejected_as_specified path =
     (IsAbs path \<or> hd (segments (Clean path)) = ''..'' \<or> ''..'' \<in> set (segments (Clean path)))"

text \<open>The addresses the specification lists for the registry check: the IPv4 ranges
  10.0.0.0/8, 172.16.0.0/12, 192.168.0.0/16, 127.0.0.0/8, 169.254.0.0/16 and 0.0.0.0/8,
  the IPv6 loopback address, the IPv6 link-local range fe80::/10, the IPv6 unique-local
  range fc00::/7, and the metadata addresses 169.254.169.254 and fd00:ec2::254. An
  address is read as \<open>net.IP\<close> reads it: through its 4-byte form when it has one.\<close>

definition specified_private_address :: "IP \<Rightarrow> bool" where
  "specified_private_address ip =
     (case To4 ip of
        Some ip4 \<Rightarrow>
          ip4 ! 0 = 10
          \<or> (ip4 ! 0 = 172 \<and> 16 \<le> ip4 ! 1 \<and> ip4 ! 1 \<le> 31)
          \<or> (ip4 ! 0 = 192 \<and> ip4 ! 1 = 168)
          \<or> ip4 ! 0 = 127
          \<or> (ip4 ! 0 = 169 \<and> ip4 ! 1 = 254)
          \<or> ip4 ! 0 = 0
          \<or> ip4 = [169, 254, 169, 254]
      | None \<Rightarrow>
          length ip = 16
          \<and> (ip = [0, 0, 0, 0, 0, 0, 0, 0, 0, 0, 0, 0, 0, 0, 0, 1]
             \<or> (ip ! 0 = 0xfe \<and> 0x80 \<le> ip ! 1 \<and> ip ! 1 \<le> 0xbf)
             \<or> (ip ! 0 = 0xfc \<or> ip ! 0 = 0xfd)
             \<or> ip = [0xfd, 0x00, 0x0e, 0xc2, 0, 0, 0, 0, 0, 0, 0, 0, 0, 0, 0x02, 0x54]))"

text \<open>Link-local multicast: 224.0.0.0/24, and the IPv6 multicast addresses of link-local
  scope (first byte \<open>ff\<close>, scope nibble 2).\<close>

definition link_local_multicast_address :: "IP \<Rightarrow> bool" where
  "link_local_multicast_address ip =
     (case To4 ip of
        Some ip4 \<Rightarrow> ip4 ! 0 = 224 \<and> ip4 ! 1 = 0 \<and> ip4 ! 2 = 0
      | None \<Rightarrow> length ip = 16 \<and> ip ! 0 = 0xff \<and> unat (ip ! 1) mod 16 = 2)"

definition rejected_address :: "IP \<Rightarrow> bool" where
  "rejected_address ip = (specified_private_address ip \<or> link_local_multicast_address ip)"

text \<open>A resolver that answers every name with the multicast address 224.0.0.1, and one
  that answers with the private address 10.0.0.1.\<close>

definition multicast_resolver :: "string \<Rightarrow> string + IP list" where
  "multicast_resolver host = Inr [ [224, 0, 0, 1]]"

definition private_resolver :: "string \<Rightarrow> string + IP list" where
  "private_resolver host = Inr [ [8, 8, 8, 8], [10, 0, 0, 1]]"

section \<open>Properties\<close>

subsection \<open>Command construction\<close>

lemma buildPublishArgs_unfold:
  "buildPublishArgs cfg =
     ''publish''
     # (if Token cfg \<noteq> '''' then [''--token'', Token cfg] else [])
     @ (if Registry cfg \<noteq> '''' then [''--registry'', Registry cfg] else [])
     @ (if AllowDirty cfg then [''--allow-dirty''] else [])
     @ (if NoVerify cfg then [''--no-verify''] else [])
     @ (if ManifestPath cfg \<noteq> '''' \<and> ManifestPath cfg \<noteq> ''Cargo.toml''
        then [''--manifest-path'', ManifestPath cfg] else [])
     @ (if Features cfg \<noteq> [] then [''--features'', Join (Features cfg) '',''] else [])
     @ (if AllFeatures cfg then [''--all-features''] else [])
     @ (if NoDefaultFeatures cfg then [''--no-default-features''] else [])
     @ (if 0 < Jobs cfg then [''--jobs'', Sprintf_d (Jobs cfg)] else [])"
  by (simp add: buildPublishArgs_def append_if_def Let_def)

text \<open>Claim C6. For every configuration, \<open>buildPublishArgs\<close> equals the reference
  sequence: the subcommand \<open>publish\<close>, then, in the fixed order token, registry,
  allow-dirty, no-verify, manifest-path, features, all-features, no-default-features,
  jobs, the segment of each flag whose field is non-default (true, non-empty, positive;
  for the manifest path: neither empty nor the default \<open>Cargo.toml\<close>) and nothing for the
  others. So a flag's segment is part of the sequence exactly when its field is
  non-default. The features are joined with commas and the job count is printed in
  decimal. Being a function of the configuration alone, the construction is
  deterministic. The second part is the full configuration of the repository's tests.\<close>

theorem buildPublishArgs_is_reference_sequence:
  "buildPublishArgs cfg = reference_args cfg
   \<and> buildPublishArgs
        \<lparr>Token = ''test-token'', Registry = ''my-registry'', AllowDirty = True,
         NoVerify = True, ManifestPath = ''path/to/Cargo.toml'', Features = [''f1'', ''f2''],
         AllFeatures = False, NoDefaultFeatures = True, Jobs = 8\<rparr>
       = [''publish'', ''--token'', ''test-token'', ''--registry'', ''my-registry'',
          ''--allow-dirty'', ''--no-verify'', ''--manifest-path'', ''path/to/Cargo.toml'',
          ''--features'', ''f1,f2'', ''--no-default-features'', ''--jobs'', ''8'']"
proof
  show "buildPublishArgs cfg = reference_args cfg"
    by (simp add: buildPublishArgs_def reference_args_def append_if_def segment_def
        Sprintf_d_def Let_def)
  show "buildPublishArgs
        \<lparr>Token = ''test-token'', Registry = ''my-registry'', AllowDirty = True,
         NoVerify = True, ManifestPath = ''path/to/Cargo.toml'', Features = [''f1'', ''f2''],
         AllFeatures = False, NoDefaultFeatures = True, Jobs = 8\<rparr>
       = [''publish'', ''--token'', ''test-token'', ''--registry'', ''my-registry'',
          ''--allow-dirty'', ''--no-verify'', ''--manifest-path'', ''path/to/Cargo.toml'',
          ''--features'', ''f1,f2'', ''--no-default-features'', ''--jobs'', ''8'']"
    by code_simp
qed

subsection \<open>Preview mode\<close>

lemma publish_dry_run:
  "publish env p cfg rc True =
     (case validateConfig env cfg of
        Inl err \<Rightarrow>
          (\<lparr>Success = False, Message = '''',
            Error = ''configuration validation failed: '' @ err, Outputs = Map.empty\<rparr>, [])
      | Inr _ \<Rightarrow>
          (\<lparr>Success = True,
            Message = ''Would publish crate version '' @ TrimPrefix (Version rc) ''v''
                      @ '' to '' @ getRegistryName cfg,
            Error = '''',
            Outputs = [''version'' \<mapsto> Str (TrimPrefix (Version rc) ''v''),
                       ''registry'' \<mapsto> Str (Registry cfg),
                       ''manifest_path'' \<mapsto> Str (ManifestPath cfg),
                       ''allow_dirty'' \<mapsto> Bool (AllowDirty cfg),
                       ''no_verify'' \<mapsto> Bool (NoVerify cfg),
                       ''command'' \<mapsto> Str (''cargo publish '' @ Join (buildPublishArgs cfg) '' '')]\<rparr>,
           []))"
  by (simp add: publish_def Let_def split: sum.splits)

lemma validateRegistryURL_env_executor:
  "validateRegistryURL (env\<lparr>RealCommandExecutor := e\<rparr>) r = validateRegistryURL env r"
  by (simp add: validateRegistryURL_def Let_def split: sum.splits)

lemma validateConfig_env_executor:
  "validateConfig (env\<lparr>RealCommandExecutor := e\<rparr>) cfg = validateConfig env cfg"
  by (simp add: validateConfig_def validateRegistryURL_env_executor split: sum.splits)

lemma publish_dry_run_calls: "snd (publish env p cfg rc True) = []"
  by (simp add: publish_dry_run split: sum.splits)

text \<open>Claim C1. In preview mode the executor is never called, for every configuration,
  valid or not, and every release context: \<open>publish\<close> makes no call, \<open>Execute\<close> on the
  supported hook makes no call whatever the configuration map is, and the response does
  not depend on which executor the plugin holds or on what the system's executor
  would do.\<close>

theorem dry_run_never_calls_executor:
  "snd (publish env p cfg releaseCtx True) = []
   \<and> snd (Execute env p (req\<lparr>Hook := HookPostPublish, DryRun := True\<rparr>)) = []
   \<and> publish (env\<lparr>RealCommandExecutor := e\<rparr>) p' cfg releaseCtx True
       = publish env p cfg releaseCtx True"
proof (intro conjI)
  show "snd (publish env p cfg releaseCtx True) = []"
    by (rule publish_dry_run_calls)
  show "snd (Execute env p (req\<lparr>Hook := HookPostPublish, DryRun := True\<rparr>)) = []"
    by (simp add: Execute_def Let_def publish_dry_run_calls)
  show "publish (env\<lparr>RealCommandExecutor := e\<rparr>) p' cfg releaseCtx True
          = publish env p cfg releaseCtx True"
    by (simp only: publish_dry_run validateConfig_env_executor)
qed

subsection \<open>Strings\<close>

lemma HasPrefix_append: "HasPrefix (p @ s) p"
  by (simp add: HasPrefix_def)

lemma HasPrefix_Nil: "HasPrefix s []"
  by (simp add: HasPrefix_def)

lemma Contains_prefix: "HasPrefix s sub \<Longrightarrow> Contains s sub"
  by (cases s) (auto simp: HasPrefix_def)

lemma Contains_append: "Contains (p @ sub @ q) sub"
proof (induction p)
  case Nil
  show ?case by (simp add: Contains_prefix HasPrefix_append)
next
  case (Cons x p)
  then show ?case by simp
qed

lemma Join_Cons: "Join (x # xs) sep = x @ (if xs = [] then [] else sep @ Join xs sep)"
  by (cases xs) simp_all

subsection \<open>The missing token\<close>

lemma publish_real_no_token:
  "validateConfig env cfg = Inr () \<Longrightarrow> Token cfg = '''' \<Longrightarrow>
   publish env p cfg rc False =
     (\<lparr>Success = False, Message = '''',
       Error = ''no API token provided: set token in config or CARGO_REGISTRY_TOKEN environment variable'',
       Outputs = Map.empty\<rparr>, [])"
  by (simp add: publish_def)

lemma Execute_supported:
  "Execute env p (req\<lparr>Hook := HookPostPublish\<rparr>)
     = publish env p (parseConfig (NewConfigParser env (Config req))) (Context req) (DryRun req)"
  by (simp add: Execute_def Let_def)

text \<open>Claim C5. For a valid configuration whose resolved token is empty, real-mode
  execution returns the failure response with the missing-credential error and makes no
  call to the executor. The check belongs to real mode only: the same configuration
  succeeds in preview mode, and no preview response of any configuration carries the
  missing-credential error. The resolved token is what the parser's \<open>GetString\<close> returns for
  the key \<open>token\<close> with the environment variable \<open>CARGO_REGISTRY_TOKEN\<close> and the default
  \<open>""\<close>, and \<open>Execute\<close> on the supported hook is \<open>publish\<close> on the parsed configuration.\<close>

theorem missing_token_fails_before_execution:
  assumes valid: "validateConfig env cfg = Inr ()"
    and empty: "Token cfg = ''''"
  shows "publish env p cfg rc False =
           (\<lparr>Success = False, Message = '''',
             Error = ''no API token provided: set token in config or CARGO_REGISTRY_TOKEN environment variable'',
             Outputs = Map.empty\<rparr>, [])
         \<and> Success (fst (publish env p cfg rc True))
         \<and> Error (fst (publish env p cfg rc True)) = ''''
         \<and> Error (fst (publish env p cfg' rc' True))
             \<noteq> ''no API token provided: set token in config or CARGO_REGISTRY_TOKEN environment variable''
         \<and> Token (parseConfig parser) = GetString parser ''token'' ''CARGO_REGISTRY_TOKEN'' ''''
         \<and> Execute env p (req\<lparr>Hook := HookPostPublish\<rparr>)
             = publish env p (parseConfig (NewConfigParser env (Config req))) (Context req) (DryRun req)"
proof (intro conjI)
  show "publish env p cfg rc False =
           (\<lparr>Success = False, Message = '''',
             Error = ''no API token provided: set token in config or CARGO_REGISTRY_TOKEN environment variable'',
             Outputs = Map.empty\<rparr>, [])"
    using valid empty by (rule publish_real_no_token)
  show "Success (fst (publish env p cfg rc True))"
    using valid by (simp add: publish_dry_run)
  show "Error (fst (publish env p cfg rc True)) = ''''"
    using valid by (simp add: publish_dry_run)
  show "Error (fst (publish env p cfg' rc' True))
             \<noteq> ''no API token provided: set token in config or CARGO_REGISTRY_TOKEN environment variable''"
    by (simp add: publish_dry_run split: sum.splits)
  show "Token (parseConfig parser) = GetString parser ''token'' ''CARGO_REGISTRY_TOKEN'' ''''"
    by (simp add: parseConfig_def)
  show "Execute env p (req\<lparr>Hook := HookPostPublish\<rparr>)
             = publish env p (parseConfig (NewConfigParser env (Config req))) (Context req) (DryRun req)"
    by (rule Execute_supported)
qed

theorem missing_token_fails_before_execution_witness:
  "validateConfig (example_env no_such_host) (example_config\<lparr>Token := ''''\<rparr>) = Inr ()
   \<and> Token (example_config\<lparr>Token := ''''\<rparr>) = ''''
   \<and> publish (example_env no_such_host) \<lparr>cmdExecutor = None\<rparr> (example_config\<lparr>Token := ''''\<rparr>)
        \<lparr>Version = ''v1.0.0''\<rparr> False =
           (\<lparr>Success = False, Message = '''',
             Error = ''no API token provided: set token in config or CARGO_REGISTRY_TOKEN environment variable'',
             Outputs = Map.empty\<rparr>, [])
   \<and> Success (fst (publish (example_env no_such_host) \<lparr>cmdExecutor = None\<rparr>
        (example_config\<lparr>Token := ''''\<rparr>) \<lparr>Version = ''v1.0.0''\<rparr> True))"
proof -
  have h1: "validateConfig (example_env no_such_host) (example_config\<lparr>Token := ''''\<rparr>) = Inr ()"
    by code_simp
  have h2: "Token (example_config\<lparr>Token := ''''\<rparr>) = ''''"
    by simp
  show ?thesis
    using h1 h2 missing_token_fails_before_execution [OF h1 h2, of "\<lparr>cmdExecutor = None\<rparr>" "\<lparr>Version = ''v1.0.0''\<rparr>"]
    by simp
qed

subsection \<open>The previewed command\<close>

text \<open>Claim C9. For a valid configuration the preview's output \<open>command\<close> is the text
  \<open>cargo publish\<close>, a space, and the arguments joined by spaces. The arguments begin with
  \<open>publish\<close>, so the text begins with \<open>cargo publish publish\<close>; with a non-empty token it
  begins with \<open>cargo publish publish --token\<close> followed by the token, so the secret is
  part of the text.\<close>

theorem dry_run_command_repeats_subcommand_and_shows_token:
  assumes valid: "validateConfig env cfg = Inr ()"
  shows "Outputs (fst (publish env p cfg rc True)) ''command''
           = Some (Str (''cargo publish '' @ Join (buildPublishArgs cfg) '' ''))
         \<and> HasPrefix (''cargo publish '' @ Join (buildPublishArgs cfg) '' '') ''cargo publish publish''
         \<and> (Token cfg \<noteq> '''' \<longrightarrow>
              HasPrefix (''cargo publish '' @ Join (buildPublishArgs cfg) '' '')
                (''cargo publish publish --token '' @ Token cfg)
              \<and> Contains (''cargo publish '' @ Join (buildPublishArgs cfg) '' '') (Token cfg))"
proof (intro conjI impI)
  show "Outputs (fst (publish env p cfg rc True)) ''command''
           = Some (Str (''cargo publish '' @ Join (buildPublishArgs cfg) '' ''))"
    using valid by (simp add: publish_dry_run)
  obtain rest where args: "buildPublishArgs cfg = ''publish'' # rest"
    by (simp add: buildPublishArgs_unfold)
  have "''cargo publish '' @ Join (buildPublishArgs cfg) '' ''
          = ''cargo publish publish'' @ (if rest = [] then [] else '' '' @ Join rest '' '')"
    by (simp add: args Join_Cons)
  then show "HasPrefix (''cargo publish '' @ Join (buildPublishArgs cfg) '' '') ''cargo publish publish''"
    by (simp only: HasPrefix_append)
next
  assume tok: "Token cfg \<noteq> ''''"
  obtain rest where args: "buildPublishArgs cfg = ''publish'' # ''--token'' # Token cfg # rest"
    using tok by (simp add: buildPublishArgs_unfold)
  have eq: "''cargo publish '' @ Join (buildPublishArgs cfg) '' ''
          = (''cargo publish publish --token '' @ Token cfg)
            @ (if rest = [] then [] else '' '' @ Join rest '' '')"
    by (simp add: args Join_Cons)
  show "HasPrefix (''cargo publish '' @ Join (buildPublishArgs cfg) '' '')
                (''cargo publish publish --token '' @ Token cfg)"
    by (simp only: eq HasPrefix_append)
  have "''cargo publish '' @ Join (buildPublishArgs cfg) '' ''
          = ''cargo publish publish --token '' @ Token cfg
            @ (if rest = [] then [] else '' '' @ Join rest '' '')"
    by (simp add: args Join_Cons)
  then show "Contains (''cargo publish '' @ Join (buildPublishArgs cfg) '' '') (Token cfg)"
    by (simp only: Contains_append)
qed

theorem dry_run_command_repeats_subcommand_and_shows_token_witness:
  "validateConfig (example_env no_such_host) example_config = Inr ()
   \<and> Token example_config \<noteq> ''''
   \<and> Outputs (fst (publish (example_env no_such_host) \<lparr>cmdExecutor = None\<rparr> example_config
         \<lparr>Version = ''v1.0.0''\<rparr> True)) ''command''
       = Some (Str ''cargo publish publish --token test-token'')
   \<and> Contains ''cargo publish publish --token test-token'' ''test-token''"
proof -
  have h1: "validateConfig (example_env no_such_host) example_config = Inr ()"
    by code_simp
  have h2: "Token example_config \<noteq> ''''"
    by (simp add: example_config_def)
  have h3: "Join (buildPublishArgs example_config) '' '' = ''publish --token test-token''"
    by code_simp
  show ?thesis
    using h1 h2 h3
      dry_run_command_repeats_subcommand_and_shows_token
        [OF h1, of "\<lparr>cmdExecutor = None\<rparr>" "\<lparr>Version = ''v1.0.0''\<rparr>"]
    by (simp add: example_config_def)
qed

subsection \<open>Path safety\<close>

lemma segments_nonempty: "segments s \<noteq> []"
  by (induction s) (auto split: list.splits)

lemma hd_segments: "hd (segments s) = takeWhile (\<lambda>c. c \<noteq> Separator) s"
  by (induction s) (auto split: list.splits simp: segments_nonempty)

lemma HasPrefix_takeWhile_dotdot:
  "HasPrefix (takeWhile (\<lambda>c. c \<noteq> Separator) s) ''..'' = HasPrefix s ''..''"
proof (cases s)
  case Nil
  then show ?thesis by simp
next
  case (Cons a t)
  then show ?thesis
    by (cases t) (auto simp: HasPrefix_def Separator_def)
qed

lemma HasPrefix_Cons_Cons:
  "HasPrefix (c # s) (d # t) = (c = d \<and> HasPrefix s t)"
  by (auto simp: HasPrefix_def)

lemma tl_segments_Contains:
  "list_ex (\<lambda>seg. HasPrefix seg ''..'') (tl (segments s)) = Contains s (Separator # ''..'')"
proof (induction s)
  case Nil
  then show ?case by simp
next
  case (Cons c s)
  show ?case
  proof (cases "c = Separator")
    case True
    have "list_ex (\<lambda>seg. HasPrefix seg ''..'') (segments s)
            = (HasPrefix (hd (segments s)) ''..''
               \<or> list_ex (\<lambda>seg. HasPrefix seg ''..'') (tl (segments s)))"
      using segments_nonempty [of s] by (cases "segments s") simp_all
    then show ?thesis
      using True Cons.IH
      by (simp add: hd_segments HasPrefix_takeWhile_dotdot HasPrefix_Cons_Cons)
  next
    case False
    then have "tl (segments (c # s)) = tl (segments s)"
      using segments_nonempty [of s] by (cases "segments s") simp_all
    then show ?thesis
      using False Cons.IH by (simp add: HasPrefix_Cons_Cons)
  qed
qed

lemma traversal_check_segments:
  "(HasPrefix cleaned ''..'' \<or> Contains cleaned (Separator # ''..''))
     = list_ex (\<lambda>seg. HasPrefix seg ''..'') (segments cleaned)"
proof -
  have "list_ex (\<lambda>seg. HasPrefix seg ''..'') (segments cleaned)
          = (HasPrefix (hd (segments cleaned)) ''..''
             \<or> list_ex (\<lambda>seg. HasPrefix seg ''..'') (tl (segments cleaned)))"
    using segments_nonempty [of cleaned] by (cases "segments cleaned") simp_all
  then show ?thesis
    by (simp add: hd_segments HasPrefix_takeWhile_dotdot tl_segments_Contains)
qed

lemma backtrack_ge: "dotdot \<le> w \<Longrightarrow> dotdot \<le> backtrack dotdot buf w"
proof (induction dotdot buf w rule: backtrack.induct)
  case (1 dotdot buf w)
  show ?case
  proof (cases "dotdot < w \<and> \<not> IsPathSeparator (buf ! w)")
    case True
    moreover from True have "dotdot \<le> w - 1"
      by arith
    ultimately have "dotdot \<le> backtrack dotdot buf (w - 1)"
      using "1.IH" by simp
    then show ?thesis
      using True by (subst backtrack.simps) simp
  next
    case False
    then show ?thesis
      using "1.prems" by (subst backtrack.simps) auto
  qed
qed

lemma clean_loop_rooted:
  "out \<noteq> [] \<Longrightarrow> hd out = Separator \<Longrightarrow> 1 \<le> dotdot \<Longrightarrow>
   clean_loop True path out dotdot \<noteq> [] \<and> hd (clean_loop True path out dotdot) = Separator"
proof (induction "True" path out dotdot rule: clean_loop.induct)
  case (1 out dotdot)
  then show ?case by (simp add: clean_loop.simps)
next
  case (2 c rest out dotdot)
  have bt: "1 \<le> backtrack dotdot out (length out - 1)" if "dotdot < length out"
  proof -
    from that have "dotdot \<le> length out - 1"
      by arith
    then have "dotdot \<le> backtrack dotdot out (length out - 1)"
      by (rule backtrack_ge)
    with "2.prems" show ?thesis
      by arith
  qed
  have tk: "\<And>w. 1 \<le> w \<Longrightarrow> take w out \<noteq> [] \<and> hd (take w out) = Separator"
    using "2.prems" by (cases out) (auto simp: take_Cons')
  show ?case
    using 2 bt tk
    by (subst (1 2) clean_loop.simps) (auto simp: Let_def)
qed

lemma clean_loop_unrooted:
  "out = [] \<or> hd out \<noteq> Separator \<Longrightarrow>
   clean_loop False path out dotdot = [] \<or> hd (clean_loop False path out dotdot) \<noteq> Separator"
proof (induction "False" path out dotdot rule: clean_loop.induct)
  case (1 out dotdot)
  then show ?case by (simp add: clean_loop.simps)
next
  case (2 c rest out dotdot)
  have tk: "\<And>w. take w out = [] \<or> hd (take w out) \<noteq> Separator"
    using "2.prems" by (cases out) (auto simp: take_Cons')
  show ?case
    using 2 tk
    by (subst (1 2) clean_loop.simps) (auto simp: Let_def IsPathSeparator_def Separator_def)
qed

lemma IsAbs_Clean:
  assumes "path \<noteq> ''''"
  shows "IsAbs (Clean path) = IsAbs path"
proof -
  from assms obtain c rest where Cons: "path = c # rest"
    by (cases path) auto
  show ?thesis
  proof (cases "c = Separator")
    case True
    have "clean_loop True rest [Separator] 1 \<noteq> []
          \<and> hd (clean_loop True rest [Separator] 1) = Separator"
      by (rule clean_loop_rooted) simp_all
    then show ?thesis
      using Cons True
      by (cases "clean_loop True rest [Separator] 1")
         (simp_all add: Clean_def IsAbs_def HasPrefix_def IsPathSeparator_def Separator_def)
  next
    case False
    have "clean_loop False (c # rest) [] 0 = []
          \<or> hd (clean_loop False (c # rest) [] 0) \<noteq> Separator"
      by (rule clean_loop_unrooted) simp
    then show ?thesis
      using Cons False
      by (cases "clean_loop False (c # rest) [] 0")
         (simp_all add: Clean_def IsAbs_def HasPrefix_def IsPathSeparator_def Separator_def)
  qed
qed

lemma Clean_nonempty: "Clean path \<noteq> ''''"
  by (simp add: Clean_def Let_def)

lemma validatePath_isl:
  "path \<noteq> '''' \<Longrightarrow>
   isl (validatePath path)
     = (IsAbs path \<or> list_ex (\<lambda>seg. HasPrefix seg ''..'') (segments (Clean path)))"
  by (simp add: validatePath_def Let_def IsAbs_Clean traversal_check_segments [symmetric])

text \<open>Claim C4, as stated, fails: the check is on the text of the cleaned path, not on
  its segments, so a name that merely begins with two dots is rejected although the
  path is relative and its cleaned form has no segment \<open>..\<close>.\<close>

theorem validatePath_rejects_name_starting_with_dots:
  "''..foo'' \<noteq> '''' \<and> isl (validatePath ''..foo'') \<and> \<not> rejected_as_specified ''..foo''"
  by code_simp

text \<open>Claim C4, amended. \<open>validatePath\<close> accepts the empty path and \<open>a/b/c\<close> and rejects
  \<open>/etc/passwd\<close>, \<open>../x\<close> and \<open>a/../../x\<close>. A non-empty path is rejected exactly when it is
  absolute or its cleaned form has a segment that begins with \<open>..\<close> (the segment \<open>..\<close>
  itself, or a name such as \<open>..foo\<close>). In particular every path the specification
  describes (absolute, or with a segment \<open>..\<close> in its cleaned form) is rejected.\<close>

theorem validatePath_rejects_exactly_dotdot_prefixed_segments:
  "validatePath '''' = Inr ()
   \<and> validatePath ''a/b/c'' = Inr ()
   \<and> isl (validatePath ''/etc/passwd'')
   \<and> isl (validatePath ''../x'')
   \<and> isl (validatePath ''a/../../x'')
   \<and> (path \<noteq> '''' \<longrightarrow>
        isl (validatePath path)
          = (IsAbs path \<or> list_ex (\<lambda>seg. HasPrefix seg ''..'') (segments (Clean path))))
   \<and> (path \<noteq> '''' \<and> rejected_as_specified path \<longrightarrow> isl (validatePath path))"
proof (intro conjI impI)
  show "validatePath '''' = Inr ()"
    by (simp add: validatePath_def)
  show "validatePath ''a/b/c'' = Inr ()"
    by code_simp
  show "isl (validatePath ''/etc/passwd'')"
    by code_simp
  show "isl (validatePath ''../x'')"
    by code_simp
  show "isl (validatePath ''a/../../x'')"
    by code_simp
next
  assume "path \<noteq> ''''"
  then show "isl (validatePath path)
          = (IsAbs path \<or> list_ex (\<lambda>seg. HasPrefix seg ''..'') (segments (Clean path)))"
    by (rule validatePath_isl)
next
  assume a: "path \<noteq> '''' \<and> rejected_as_specified path"
  have "hd (segments (Clean path)) \<in> set (segments (Clean path))"
    using segments_nonempty by simp
  moreover have "HasPrefix ''..'' ''..''"
    by (simp add: HasPrefix_def)
  ultimately have "list_ex (\<lambda>seg. HasPrefix seg ''..'') (segments (Clean path))"
    if "hd (segments (Clean path)) = ''..'' \<or> ''..'' \<in> set (segments (Clean path))"
    using that unfolding list_ex_iff by metis
  then show "isl (validatePath path)"
    using a by (auto simp: validatePath_isl rejected_as_specified_def)
qed

theorem validatePath_rejects_exactly_dotdot_prefixed_segments_witness:
  "''../x'' \<noteq> '''' \<and> rejected_as_specified ''../x''
   \<and> list_ex (\<lambda>seg. HasPrefix seg ''..'') (segments (Clean ''../x''))
   \<and> isl (validatePath ''../x'')"
proof -
  have h1: "''../x'' \<noteq> ''''"
    by simp
  have h2: "rejected_as_specified ''../x''"
    by code_simp
  have h3: "list_ex (\<lambda>seg. HasPrefix seg ''..'') (segments (Clean ''../x''))"
    by code_simp
  show ?thesis
    using h1 h2 h3 validatePath_rejects_exactly_dotdot_prefixed_segments [of "''../x''"]
    by simp
qed

subsection \<open>Working directory\<close>

lemma Dir_nonempty: "Dir path \<noteq> ''''"
  by (simp add: Dir_def Clean_nonempty)

lemma publish_real:
  assumes "validateConfig env cfg = Inr ()" and "Token cfg \<noteq> ''''"
  shows "publish env p cfg rc False =
           (if ManifestPath cfg \<noteq> '''' \<and> ManifestPath cfg \<noteq> ''Cargo.toml''
            then (executed_response cfg rc
                    (RunInDir (getExecutor env p) (Dir (ManifestPath cfg)) ''cargo''
                       (buildPublishArgs cfg)),
                  [RunInDirCall (Dir (ManifestPath cfg)) ''cargo'' (buildPublishArgs cfg)])
            else (executed_response cfg rc
                    (Run (getExecutor env p) ''cargo'' (buildPublishArgs cfg)),
                  [RunCall ''cargo'' (buildPublishArgs cfg)]))"
  using assms
  by (simp add: publish_def executed_response_def Let_def Dir_nonempty
      split: prod.splits option.splits)

text \<open>Claim C7. In real mode, with a valid configuration and a token, the executor is
  applied exactly once and the response is built from what that application returns:
  \<open>RunInDir\<close> with the directory of the manifest path, the command \<open>cargo\<close> and the
  arguments when that path is neither empty nor \<open>Cargo.toml\<close>; \<open>Run\<close> with the command and
  the arguments, and no directory, otherwise. The directory of \<open>crates/lib/Cargo.toml\<close>
  is \<open>crates/lib\<close>.\<close>

theorem manifest_path_selects_working_directory:
  assumes "validateConfig env cfg = Inr ()" and "Token cfg \<noteq> ''''"
  shows "publish env p cfg rc False =
           (if ManifestPath cfg \<noteq> '''' \<and> ManifestPath cfg \<noteq> ''Cargo.toml''
            then (executed_response cfg rc
                    (RunInDir (getExecutor env p) (Dir (ManifestPath cfg)) ''cargo''
                       (buildPublishArgs cfg)),
                  [RunInDirCall (Dir (ManifestPath cfg)) ''cargo'' (buildPublishArgs cfg)])
            else (executed_response cfg rc
                    (Run (getExecutor env p) ''cargo'' (buildPublishArgs cfg)),
                  [RunCall ''cargo'' (buildPublishArgs cfg)]))
         \<and> Dir ''crates/lib/Cargo.toml'' = ''crates/lib''"
proof
  show "publish env p cfg rc False =
           (if ManifestPath cfg \<noteq> '''' \<and> ManifestPath cfg \<noteq> ''Cargo.toml''
            then (executed_response cfg rc
                    (RunInDir (getExecutor env p) (Dir (ManifestPath cfg)) ''cargo''
                       (buildPublishArgs cfg)),
                  [RunInDirCall (Dir (ManifestPath cfg)) ''cargo'' (buildPublishArgs cfg)])
            else (executed_response cfg rc
                    (Run (getExecutor env p) ''cargo'' (buildPublishArgs cfg)),
                  [RunCall ''cargo'' (buildPublishArgs cfg)]))"
    using assms by (rule publish_real)
  show "Dir ''crates/lib/Cargo.toml'' = ''crates/lib''"
    by code_simp
qed

theorem manifest_path_selects_working_directory_witness:
  "validateConfig (example_env no_such_host)
      (example_config\<lparr>ManifestPath := ''crates/lib/Cargo.toml''\<rparr>) = Inr ()
   \<and> Token (example_config\<lparr>ManifestPath := ''crates/lib/Cargo.toml''\<rparr>) \<noteq> ''''
   \<and> snd (publish (example_env no_such_host) \<lparr>cmdExecutor = Some reporting_executor\<rparr>
        (example_config\<lparr>ManifestPath := ''crates/lib/Cargo.toml''\<rparr>) \<lparr>Version = ''v1.0.0''\<rparr> False)
       = [RunInDirCall ''crates/lib'' ''cargo''
            [''publish'', ''--token'', ''test-token'', ''--manifest-path'', ''crates/lib/Cargo.toml'']]
   \<and> Outputs (fst (publish (example_env no_such_host) \<lparr>cmdExecutor = Some reporting_executor\<rparr>
        (example_config\<lparr>ManifestPath := ''crates/lib/Cargo.toml''\<rparr>) \<lparr>Version = ''v1.0.0''\<rparr> False))
        ''output''
       = Some (Str ''ran cargo in crates/lib'')
   \<and> validateConfig (example_env no_such_host) example_config = Inr ()
   \<and> Token example_config \<noteq> ''''
   \<and> snd (publish (example_env no_such_host) \<lparr>cmdExecutor = Some reporting_executor\<rparr>
        example_config \<lparr>Version = ''v1.0.0''\<rparr> False)
       = [RunCall ''cargo'' [''publish'', ''--token'', ''test-token'']]
   \<and> Outputs (fst (publish (example_env no_such_host) \<lparr>cmdExecutor = Some reporting_executor\<rparr>
        example_config \<lparr>Version = ''v1.0.0''\<rparr> False)) ''output''
       = Some (Str ''ran cargo'')"
proof -
  have h1: "validateConfig (example_env no_such_host)
      (example_config\<lparr>ManifestPath := ''crates/lib/Cargo.toml''\<rparr>) = Inr ()"
    by code_simp
  have h2: "Token (example_config\<lparr>ManifestPath := ''crates/lib/Cargo.toml''\<rparr>) \<noteq> ''''"
    by (simp add: example_config_def)
  have h3: "buildPublishArgs (example_config\<lparr>ManifestPath := ''crates/lib/Cargo.toml''\<rparr>)
      = [''publish'', ''--token'', ''test-token'', ''--manifest-path'', ''crates/lib/Cargo.toml'']"
    by code_simp
  have k1: "validateConfig (example_env no_such_host) example_config = Inr ()"
    by code_simp
  have k2: "Token example_config \<noteq> ''''"
    by (simp add: example_config_def)
  have k3: "buildPublishArgs example_config = [''publish'', ''--token'', ''test-token'']"
    by code_simp
  show ?thesis
    using h1 h2 h3 k1 k2 k3
      manifest_path_selects_working_directory
        [OF h1 h2, of "\<lparr>cmdExecutor = Some reporting_executor\<rparr>" "\<lparr>Version = ''v1.0.0''\<rparr>"]
      manifest_path_selects_working_directory
        [OF k1 k2, of "\<lparr>cmdExecutor = Some reporting_executor\<rparr>" "\<lparr>Version = ''v1.0.0''\<rparr>"]
    by (simp add: example_config_def executed_response_def getExecutor_def
        reporting_executor_def)
qed

subsection \<open>Reported version\<close>

text \<open>Claim C8. The reported version is the input version with one leading \<open>v\<close> removed:
  \<open>v1.2.3\<close> gives \<open>1.2.3\<close>, \<open>1.2.3\<close> stays, and in general only a first character \<open>v\<close> is
  dropped. With a valid configuration the preview response has this version in its
  output \<open>version\<close> and in its message, and so has the real-mode response when there is
  a token and the executor returns no error. In every case a response that succeeds
  reports this version and a response that fails reports none.\<close>

theorem version_reported_without_leading_v:
  assumes valid: "validateConfig env cfg = Inr ()"
  shows "TrimPrefix ''v1.2.3'' ''v'' = ''1.2.3''
   \<and> TrimPrefix ''1.2.3'' ''v'' = ''1.2.3''
   \<and> TrimPrefix version ''v'' =
       (case version of [] \<Rightarrow> [] | c # rest \<Rightarrow> if c = CHR ''v'' then rest else version)
   \<and> Outputs (fst (publish env p cfg rc True)) ''version''
       = Some (Str (TrimPrefix (Version rc) ''v''))
   \<and> Message (fst (publish env p cfg rc True))
       = ''Would publish crate version '' @ TrimPrefix (Version rc) ''v''
         @ '' to '' @ getRegistryName cfg
   \<and> (Token cfg \<noteq> ''''
        \<and> snd (if ManifestPath cfg \<noteq> '''' \<and> ManifestPath cfg \<noteq> ''Cargo.toml''
                then RunInDir (getExecutor env p) (Dir (ManifestPath cfg)) ''cargo''
                       (buildPublishArgs cfg)
                else Run (getExecutor env p) ''cargo'' (buildPublishArgs cfg)) = None
      \<longrightarrow> Outputs (fst (publish env p cfg rc False)) ''version''
            = Some (Str (TrimPrefix (Version rc) ''v''))
          \<and> Message (fst (publish env p cfg rc False))
            = ''Published crate version '' @ TrimPrefix (Version rc) ''v''
              @ '' to '' @ getRegistryName cfg)
   \<and> Outputs (fst (publish env' p' cfg' rc dryRun)) ''version'' =
       (if Success (fst (publish env' p' cfg' rc dryRun))
        then Some (Str (TrimPrefix (Version rc) ''v'')) else None)
   \<and> Message (fst (publish env' p' cfg' rc dryRun)) =
       (if Success (fst (publish env' p' cfg' rc dryRun))
        then (if dryRun then ''Would publish'' else ''Published'') @ '' crate version ''
             @ TrimPrefix (Version rc) ''v'' @ '' to '' @ getRegistryName cfg'
        else '''')"
proof (intro conjI impI)
  show "TrimPrefix ''v1.2.3'' ''v'' = ''1.2.3''"
    by (simp add: TrimPrefix_def HasPrefix_def)
  show "TrimPrefix ''1.2.3'' ''v'' = ''1.2.3''"
    by (simp add: TrimPrefix_def HasPrefix_def)
  show "TrimPrefix version ''v'' =
       (case version of [] \<Rightarrow> [] | c # rest \<Rightarrow> if c = CHR ''v'' then rest else version)"
    by (cases version) (simp_all add: TrimPrefix_def HasPrefix_def)
  show "Outputs (fst (publish env p cfg rc True)) ''version''
       = Some (Str (TrimPrefix (Version rc) ''v''))"
    using valid by (simp add: publish_dry_run)
  show "Message (fst (publish env p cfg rc True))
       = ''Would publish crate version '' @ TrimPrefix (Version rc) ''v''
         @ '' to '' @ getRegistryName cfg"
    using valid by (simp add: publish_dry_run)
  show "Outputs (fst (publish env' p' cfg' rc dryRun)) ''version'' =
       (if Success (fst (publish env' p' cfg' rc dryRun))
        then Some (Str (TrimPrefix (Version rc) ''v'')) else None)"
    by (simp add: publish_def Let_def split: sum.splits option.splits prod.splits)
  show "Message (fst (publish env' p' cfg' rc dryRun)) =
       (if Success (fst (publish env' p' cfg' rc dryRun))
        then (if dryRun then ''Would publish'' else ''Published'') @ '' crate version ''
             @ TrimPrefix (Version rc) ''v'' @ '' to '' @ getRegistryName cfg'
        else '''')"
    by (simp add: publish_def Let_def split: sum.splits option.splits prod.splits)
next
  assume a: "Token cfg \<noteq> ''''
        \<and> snd (if ManifestPath cfg \<noteq> '''' \<and> ManifestPath cfg \<noteq> ''Cargo.toml''
                then RunInDir (getExecutor env p) (Dir (ManifestPath cfg)) ''cargo''
                       (buildPublishArgs cfg)
                else Run (getExecutor env p) ''cargo'' (buildPublishArgs cfg)) = None"
  then have tok: "Token cfg \<noteq> ''''"
    by simp
  show "Outputs (fst (publish env p cfg rc False)) ''version''
            = Some (Str (TrimPrefix (Version rc) ''v''))"
    using a
    by (auto simp add: publish_real [OF valid tok] executed_response_def
        split: prod.splits option.splits if_splits)
  show "Message (fst (publish env p cfg rc False))
            = ''Published crate version '' @ TrimPrefix (Version rc) ''v''
              @ '' to '' @ getRegistryName cfg"
    using a
    by (auto simp add: publish_real [OF valid tok] executed_response_def
        split: prod.splits option.splits if_splits)
qed

theorem version_reported_without_leading_v_witness:
  "validateConfig (example_env no_such_host) example_config = Inr ()
   \<and> Token example_config \<noteq> ''''
   \<and> snd (Run (getExecutor (example_env no_such_host) \<lparr>cmdExecutor = None\<rparr>) ''cargo''
            (buildPublishArgs example_config)) = None
   \<and> Outputs (fst (publish (example_env no_such_host) \<lparr>cmdExecutor = None\<rparr> example_config
        \<lparr>Version = ''v1.2.3''\<rparr> True)) ''version'' = Some (Str ''1.2.3'')
   \<and> Message (fst (publish (example_env no_such_host) \<lparr>cmdExecutor = None\<rparr> example_config
        \<lparr>Version = ''v1.2.3''\<rparr> True)) = ''Would publish crate version 1.2.3 to crates.io''
   \<and> Outputs (fst (publish (example_env no_such_host) \<lparr>cmdExecutor = None\<rparr> example_config
        \<lparr>Version = ''v1.2.3''\<rparr> False)) ''version'' = Some (Str ''1.2.3'')
   \<and> Message (fst (publish (example_env no_such_host) \<lparr>cmdExecutor = None\<rparr> example_config
        \<lparr>Version = ''v1.2.3''\<rparr> False)) = ''Published crate version 1.2.3 to crates.io''
   \<and> Outputs (fst (publish (example_env no_such_host) \<lparr>cmdExecutor = None\<rparr> example_config
        \<lparr>Version = ''1.2.3''\<rparr> True)) ''version'' = Some (Str ''1.2.3'')
   \<and> Outputs (fst (publish (example_env no_such_host) \<lparr>cmdExecutor = None\<rparr> example_config
        \<lparr>Version = ''1.2.3''\<rparr> False)) ''version'' = Some (Str ''1.2.3'')"
proof -
  have h1: "validateConfig (example_env no_such_host) example_config = Inr ()"
    by code_simp
  have h2: "Token example_config \<noteq> ''''"
    by (simp add: example_config_def)
  have h3: "snd (Run (getExecutor (example_env no_such_host) \<lparr>cmdExecutor = None\<rparr>) ''cargo''
            (buildPublishArgs example_config)) = None"
    by (simp add: getExecutor_def example_env_def MockCommandExecutor_def)
  have h4: "ManifestPath example_config = ''Cargo.toml''"
    by (simp add: example_config_def)
  have h5: "getRegistryName example_config = ''crates.io''"
    by (simp add: getRegistryName_def example_config_def)
  have t1: "TrimPrefix ''v1.2.3'' ''v'' = ''1.2.3''" and t2: "TrimPrefix ''1.2.3'' ''v'' = ''1.2.3''"
    by (simp_all add: TrimPrefix_def HasPrefix_def)
  have run: "Token example_config \<noteq> ''''
        \<and> snd (if ManifestPath example_config \<noteq> ''''
                   \<and> ManifestPath example_config \<noteq> ''Cargo.toml''
                then RunInDir (getExecutor (example_env no_such_host) \<lparr>cmdExecutor = None\<rparr>)
                       (Dir (ManifestPath example_config)) ''cargo''
                       (buildPublishArgs example_config)
                else Run (getExecutor (example_env no_such_host) \<lparr>cmdExecutor = None\<rparr>)
                       ''cargo'' (buildPublishArgs example_config)) = None"
    using h2 h3 by (simp add: h4)
  note v = version_reported_without_leading_v
    [OF h1, where p = "\<lparr>cmdExecutor = None\<rparr>" and rc = "\<lparr>Version = ''v1.2.3''\<rparr>"]
  note v_preview = v [THEN conjunct2, THEN conjunct2, THEN conjunct2, THEN conjunct1]
  note v_message = v [THEN conjunct2, THEN conjunct2, THEN conjunct2, THEN conjunct2,
    THEN conjunct1]
  note v_real = v [THEN conjunct2, THEN conjunct2, THEN conjunct2, THEN conjunct2,
    THEN conjunct2, THEN conjunct1, rule_format, OF run]
  note w = version_reported_without_leading_v
    [OF h1, where p = "\<lparr>cmdExecutor = None\<rparr>" and rc = "\<lparr>Version = ''1.2.3''\<rparr>"]
  note w_preview = w [THEN conjunct2, THEN conjunct2, THEN conjunct2, THEN conjunct1]
  note w_real = w [THEN conjunct2, THEN conjunct2, THEN conjunct2, THEN conjunct2,
    THEN conjunct2, THEN conjunct1, rule_format, OF run]
  show ?thesis
    using h1 h2 h3 v_preview v_message v_real w_preview w_real
    by (simp add: h5 t1 t2)
qed

subsection \<open>A manifest path that cleans to the default\<close>

lemma validatePath_cleaned_default:
  assumes "Clean path = ''Cargo.toml''"
  shows "validatePath path = Inr ()"
  using assms
  by (simp add: validatePath_def Let_def IsAbs_def HasPrefix_def Separator_def)

lemma cleaned_default_nonempty:
  assumes "Clean path = ''Cargo.toml''"
  shows "path \<noteq> ''''"
  using assms by (auto simp: Clean_def)

text \<open>Claim C10, as stated, fails in its last part: a manifest path whose cleaned form
  is \<open>Cargo.toml\<close> need not have the directory \<open>.\<close>. \<open>Cargo.toml/\<close> passes the path check,
  cleans to \<open>Cargo.toml\<close> and is not the default, but the command is run in the
  directory \<open>Cargo.toml\<close>.\<close>

theorem default_manifest_with_trailing_slash_runs_elsewhere:
  "Clean ''Cargo.toml/'' = ''Cargo.toml''
   \<and> validatePath ''Cargo.toml/'' = Inr ()
   \<and> validateConfig (example_env no_such_host)
        (example_config\<lparr>ManifestPath := ''Cargo.toml/''\<rparr>) = Inr ()
   \<and> Dir ''Cargo.toml/'' = ''Cargo.toml''
   \<and> snd (publish (example_env no_such_host) \<lparr>cmdExecutor = Some reporting_executor\<rparr>
        (example_config\<lparr>ManifestPath := ''Cargo.toml/''\<rparr>) \<lparr>Version = ''v1.0.0''\<rparr> False)
       = [RunInDirCall ''Cargo.toml'' ''cargo''
            [''publish'', ''--token'', ''test-token'', ''--manifest-path'', ''Cargo.toml/'']]
   \<and> Outputs (fst (publish (example_env no_such_host) \<lparr>cmdExecutor = Some reporting_executor\<rparr>
        (example_config\<lparr>ManifestPath := ''Cargo.toml/''\<rparr>) \<lparr>Version = ''v1.0.0''\<rparr> False))
        ''output''
       = Some (Str ''ran cargo in Cargo.toml'')"
  by code_simp

text \<open>Claim C10, amended. The manifest path is compared with \<open>Cargo.toml\<close> as written,
  before any cleaning. A path whose cleaned form is \<open>Cargo.toml\<close> but which is not that
  text passes the path check and is not the default: the arguments carry
  \<open>--manifest-path\<close> with the path as written, and in real mode the one call of the
  executor is \<open>RunInDir\<close> in the directory of the path as written, from whose result the
  response is built. For \<open>./Cargo.toml\<close> that directory is \<open>.\<close>.\<close>

theorem cleaned_default_manifest_is_not_default:
  assumes clean: "Clean (ManifestPath cfg) = ''Cargo.toml''"
    and ne: "ManifestPath cfg \<noteq> ''Cargo.toml''"
    and valid: "validateConfig env cfg = Inr ()"
    and tok: "Token cfg \<noteq> ''''"
  shows "validatePath (ManifestPath cfg) = Inr ()
         \<and> buildPublishArgs cfg =
             ''publish'' # ''--token'' # Token cfg
             # (if Registry cfg \<noteq> '''' then [''--registry'', Registry cfg] else [])
             @ (if AllowDirty cfg then [''--allow-dirty''] else [])
             @ (if NoVerify cfg then [''--no-verify''] else [])
             @ [''--manifest-path'', ManifestPath cfg]
             @ (if Features cfg \<noteq> [] then [''--features'', Join (Features cfg) '',''] else [])
             @ (if AllFeatures cfg then [''--all-features''] else [])
             @ (if NoDefaultFeatures cfg then [''--no-default-features''] else [])
             @ (if 0 < Jobs cfg then [''--jobs'', Sprintf_d (Jobs cfg)] else [])
         \<and> publish env p cfg rc False =
             (executed_response cfg rc
                (RunInDir (getExecutor env p) (Dir (ManifestPath cfg)) ''cargo''
                   (buildPublishArgs cfg)),
              [RunInDirCall (Dir (ManifestPath cfg)) ''cargo'' (buildPublishArgs cfg)])
         \<and> Clean ''./Cargo.toml'' = ''Cargo.toml''
         \<and> Dir ''./Cargo.toml'' = ''.''"
proof (intro conjI)
  have nonempty: "ManifestPath cfg \<noteq> ''''"
    using clean by (rule cleaned_default_nonempty)
  show "validatePath (ManifestPath cfg) = Inr ()"
    using clean by (rule validatePath_cleaned_default)
  show "buildPublishArgs cfg =
             ''publish'' # ''--token'' # Token cfg
             # (if Registry cfg \<noteq> '''' then [''--registry'', Registry cfg] else [])
             @ (if AllowDirty cfg then [''--allow-dirty''] else [])
             @ (if NoVerify cfg then [''--no-verify''] else [])
             @ [''--manifest-path'', ManifestPath cfg]
             @ (if Features cfg \<noteq> [] then [''--features'', Join (Features cfg) '',''] else [])
             @ (if AllFeatures cfg then [''--all-features''] else [])
             @ (if NoDefaultFeatures cfg then [''--no-default-features''] else [])
             @ (if 0 < Jobs cfg then [''--jobs'', Sprintf_d (Jobs cfg)] else [])"
    using nonempty ne tok by (simp add: buildPublishArgs_unfold)
  show "publish env p cfg rc False =
             (executed_response cfg rc
                (RunInDir (getExecutor env p) (Dir (ManifestPath cfg)) ''cargo''
                   (buildPublishArgs cfg)),
              [RunInDirCall (Dir (ManifestPath cfg)) ''cargo'' (buildPublishArgs cfg)])"
    using nonempty ne by (simp add: publish_real [OF valid tok])
  show "Clean ''./Cargo.toml'' = ''Cargo.toml''"
    by code_simp
  show "Dir ''./Cargo.toml'' = ''.''"
    by code_simp
qed

theorem cleaned_default_manifest_is_not_default_witness:
  "Clean (ManifestPath (example_config\<lparr>ManifestPath := ''./Cargo.toml''\<rparr>)) = ''Cargo.toml''
   \<and> ManifestPath (example_config\<lparr>ManifestPath := ''./Cargo.toml''\<rparr>) \<noteq> ''Cargo.toml''
   \<and> validateConfig (example_env no_such_host)
        (example_config\<lparr>ManifestPath := ''./Cargo.toml''\<rparr>) = Inr ()
   \<and> Token (example_config\<lparr>ManifestPath := ''./Cargo.toml''\<rparr>) \<noteq> ''''
   \<and> snd (publish (example_env no_such_host) \<lparr>cmdExecutor = Some reporting_executor\<rparr>
        (example_config\<lparr>ManifestPath := ''./Cargo.toml''\<rparr>) \<lparr>Version = ''v1.0.0''\<rparr> False)
       = [RunInDirCall ''.'' ''cargo''
            [''publish'', ''--token'', ''test-token'', ''--manifest-path'', ''./Cargo.toml'']]
   \<and> Outputs (fst (publish (example_env no_such_host) \<lparr>cmdExecutor = Some reporting_executor\<rparr>
        (example_config\<lparr>ManifestPath := ''./Cargo.toml''\<rparr>) \<lparr>Version = ''v1.0.0''\<rparr> False))
        ''output''
       = Some (Str ''ran cargo in .'')"
proof -
  have h1: "Clean (ManifestPath (example_config\<lparr>ManifestPath := ''./Cargo.toml''\<rparr>)) = ''Cargo.toml''"
    by code_simp
  have h2: "ManifestPath (example_config\<lparr>ManifestPath := ''./Cargo.toml''\<rparr>) \<noteq> ''Cargo.toml''"
    by simp
  have h3: "validateConfig (example_env no_such_host)
        (example_config\<lparr>ManifestPath := ''./Cargo.toml''\<rparr>) = Inr ()"
    by code_simp
  have h4: "Token (example_config\<lparr>ManifestPath := ''./Cargo.toml''\<rparr>) \<noteq> ''''"
    by (simp add: example_config_def)
  have h5: "buildPublishArgs (example_config\<lparr>ManifestPath := ''./Cargo.toml''\<rparr>)
      = [''publish'', ''--token'', ''test-token'', ''--manifest-path'', ''./Cargo.toml'']"
    by code_simp
  have h6: "Dir ''./Cargo.toml'' = ''.''"
    by code_simp
  show ?thesis
    using h1 h2 h3 h4
      cleaned_default_manifest_is_not_default
        [OF h1 h2 h3 h4, of "\<lparr>cmdExecutor = Some reporting_executor\<rparr>" "\<lparr>Version = ''v1.0.0''\<rparr>"]
    by (simp add: h5 h6 executed_response_def getExecutor_def reporting_executor_def)
qed

subsection \<open>Private addresses\<close>

text \<open>A property of all bytes is checked on the 256 bytes, sixteen at a time.\<close>

lemma byte_all:
  fixes b :: byte
  assumes "list_all (\<lambda>h. list_all (\<lambda>l. P (of_nat (16 * h + l) :: byte)) [0..<16]) [0..<16]"
  shows "P b"
proof -
  have lt: "unat b < 256"
    using unsigned_less [of b] by simp
  then have h: "unat b div 16 \<in> set [0..<16]" and l: "unat b mod 16 \<in> set [0..<16]"
    by auto
  have "P (of_nat (16 * (unat b div 16) + unat b mod 16))"
    using assms h l unfolding list_all_iff by blast
  then show ?thesis
    by simp
qed

lemma and_ff: "(b :: byte) AND 0xff = b"
proof -
  have "(0xff :: byte) = - 1"
    by simp
  then show ?thesis
    by (simp only: and.right_neutral)
qed

lemma and_f0: "((b :: byte) AND 0xf0 = 0x10) = (16 \<le> b \<and> b \<le> 31)"
  by (rule byte_all [where P = "\<lambda>b. (b AND 0xf0 = 0x10) = (16 \<le> b \<and> b \<le> 31)"]) code_simp

lemma and_c0: "((b :: byte) AND 0xc0 = 0x80) = (0x80 \<le> b \<and> b \<le> 0xbf)"
  by (rule byte_all [where P = "\<lambda>b. (b AND 0xc0 = 0x80) = (0x80 \<le> b \<and> b \<le> 0xbf)"]) code_simp

lemma and_fe: "((b :: byte) AND 0xfe = 0xfc) = (b = 0xfc \<or> b = 0xfd)"
  by (rule byte_all [where P = "\<lambda>b. (b AND 0xfe = 0xfc) = (b = 0xfc \<or> b = 0xfd)"]) code_simp

lemma and_0f: "((b :: byte) AND 0x0f = 0x02) = (unat b mod 16 = 2)"
  by (rule byte_all [where P = "\<lambda>b. (b AND 0x0f = 0x02) = (unat b mod 16 = 2)"]) code_simp

lemma To4_4 [simp]: "To4 [a, b, c, d] = Some [a, b, c, d]"
  by (simp add: To4_def)

lemma To4_Some:
  assumes "To4 ip = Some ip4"
  shows "\<exists>a b c d. ip4 = [a, b, c, d]"
proof -
  have "length ip4 = 4"
    using assms by (auto simp: To4_def split: if_splits)
  then show ?thesis
    by (auto simp: length_Suc_conv eval_nat_numeral)
qed

lemma CIDRMask_values:
  "CIDRMask 8 32 = [0xff, 0, 0, 0]"
  "CIDRMask 12 32 = [0xff, 0xf0, 0, 0]"
  "CIDRMask 16 32 = [0xff, 0xff, 0, 0]"
  "CIDRMask 32 32 = [0xff, 0xff, 0xff, 0xff]"
  "CIDRMask 128 128 = [0xff, 0xff, 0xff, 0xff, 0xff, 0xff, 0xff, 0xff,
                       0xff, 0xff, 0xff, 0xff, 0xff, 0xff, 0xff, 0xff]"
  by code_simp+

lemma ParseCIDR_values:
  "ParseCIDR ''10.0.0.0/8'' = Some \<lparr>IP = [10, 0, 0, 0], Mask = [0xff, 0, 0, 0]\<rparr>"
  "ParseCIDR ''172.16.0.0/12'' = Some \<lparr>IP = [172, 16, 0, 0], Mask = [0xff, 0xf0, 0, 0]\<rparr>"
  "ParseCIDR ''192.168.0.0/16'' = Some \<lparr>IP = [192, 168, 0, 0], Mask = [0xff, 0xff, 0, 0]\<rparr>"
  "ParseCIDR ''127.0.0.0/8'' = Some \<lparr>IP = [127, 0, 0, 0], Mask = [0xff, 0, 0, 0]\<rparr>"
  "ParseCIDR ''169.254.0.0/16'' = Some \<lparr>IP = [169, 254, 0, 0], Mask = [0xff, 0xff, 0, 0]\<rparr>"
  "ParseCIDR ''0.0.0.0/8'' = Some \<lparr>IP = [0, 0, 0, 0], Mask = [0xff, 0, 0, 0]\<rparr>"
  "ParseCIDR ''169.254.169.254/32''
     = Some \<lparr>IP = [169, 254, 169, 254], Mask = [0xff, 0xff, 0xff, 0xff]\<rparr>"
  "ParseCIDR ''fd00:ec2::254/128''
     = Some \<lparr>IP = [0xfd, 0x00, 0x0e, 0xc2, 0, 0, 0, 0, 0, 0, 0, 0, 0, 0, 0x02, 0x54],
             Mask = [0xff, 0xff, 0xff, 0xff, 0xff, 0xff, 0xff, 0xff,
                     0xff, 0xff, 0xff, 0xff, 0xff, 0xff, 0xff, 0xff]\<rparr>"
  by (simp_all add: ParseCIDR_def CIDRMask_values)

lemma upt_4: "[0..<4] = [0, 1, 2, 3]"
  by (simp add: upt_rec)

lemma Contains_v4_v4:
  "IPNet_Contains \<lparr>IP = [n0, n1, n2, n3], Mask = [m0, m1, m2, m3]\<rparr> [a, b, c, d]
     = (n0 AND m0 = a AND m0 \<and> n1 AND m1 = b AND m1 \<and> n2 AND m2 = c AND m2 \<and> n3 AND m3 = d AND m3)"
  by (simp add: IPNet_Contains_def networkNumberAndMask_def upt_4)

lemma Contains_v6_v4:
  "length n = 16 \<Longrightarrow> To4 n = None \<Longrightarrow> length m = 16 \<Longrightarrow>
   IPNet_Contains \<lparr>IP = n, Mask = m\<rparr> [a, b, c, d] = False"
  by (simp add: IPNet_Contains_def networkNumberAndMask_def)

lemma in_ranges_v4:
  "in_ranges allRanges [a, b, c, d]
     = (a = 10 \<or> (a = 172 \<and> 16 \<le> b \<and> b \<le> 31) \<or> (a = 192 \<and> b = 168) \<or> a = 127
        \<or> (a = 169 \<and> b = 254) \<or> a = 0 \<or> [a, b, c, d] = [169, 254, 169, 254])"
proof -
  have v6: "To4 [0xfd, 0x00, 0x0e, 0xc2, 0, 0, 0, 0, 0, 0, 0, 0, 0, 0, 0x02, 0x54] = None"
    by (simp add: To4_def)
  show ?thesis
    by (simp add: allRanges_def ParseCIDR_values Contains_v4_v4 Contains_v6_v4 v6 and_ff
        and_f0 [symmetric] eq_commute [of "10 :: byte"] )
qed


lemma isPrivateIP_v4: "isPrivateIP [a, b, c, d] = rejected_address [a, b, c, d]"
  by (auto simp: isPrivateIP_def in_ranges_v4 IsLoopback_def IsLinkLocalUnicast_def
      IsLinkLocalMulticast_def IsPrivate_def and_f0 rejected_address_def
      specified_private_address_def link_local_multicast_address_def)

lemma To4_idem:
  assumes "To4 ip = Some ip4"
  shows "To4 ip4 = Some ip4"
proof -
  from assms obtain a b c d where "ip4 = [a, b, c, d]"
    using To4_Some by blast
  then show ?thesis by simp
qed

lemma IPNet_Contains_To4:
  "To4 ip = Some ip4 \<Longrightarrow> IPNet_Contains n ip = IPNet_Contains n ip4"
  by (simp add: IPNet_Contains_def To4_idem cong: option.case_cong prod.case_cong)

lemma in_ranges_To4:
  "To4 ip = Some ip4 \<Longrightarrow> in_ranges rs ip = in_ranges rs ip4"
  by (induction rs) (simp_all add: IPNet_Contains_To4 split: option.splits)

lemma isPrivateIP_To4:
  assumes "To4 ip = Some ip4"
  shows "isPrivateIP ip = isPrivateIP ip4"
  using assms To4_idem [OF assms]
  by (simp add: isPrivateIP_def in_ranges_To4 [OF assms] IsLoopback_def IsLinkLocalUnicast_def
      IsLinkLocalMulticast_def IsPrivate_def)

lemma rejected_address_To4:
  assumes "To4 ip = Some ip4"
  shows "rejected_address ip = rejected_address ip4"
  using assms To4_idem [OF assms]
  by (simp add: rejected_address_def specified_private_address_def
      link_local_multicast_address_def)

lemma To4_None_length: "To4 ip = None \<Longrightarrow> length ip \<noteq> 4"
  by (auto simp: To4_def)

lemma To4_None_length_Suc: "To4 ip = None \<Longrightarrow> length ip \<noteq> Suc (Suc (Suc (Suc 0)))"
  by (auto simp: To4_def)

lemma Contains_v4_None:
  "To4 ip = None \<Longrightarrow>
   IPNet_Contains \<lparr>IP = [n0, n1, n2, n3], Mask = [m0, m1, m2, m3]\<rparr> ip = False"
  by (simp add: IPNet_Contains_def networkNumberAndMask_def To4_None_length_Suc)

lemma upt_16: "[0..<16] = [0, 1, 2, 3, 4, 5, 6, 7, 8, 9, 10, 11, 12, 13, 14, 15]"
  by (simp add: upt_rec)

lemma length_16:
  assumes "length ip = 16"
  shows "\<exists>x0 x1 x2 x3 x4 x5 x6 x7 x8 x9 x10 x11 x12 x13 x14 x15.
           ip = [x0, x1, x2, x3, x4, x5, x6, x7, x8, x9, x10, x11, x12, x13, x14, x15]"
  using assms by (auto simp: length_Suc_conv eval_nat_numeral)

lemma Contains_metadata_v6:
  assumes none: "To4 ip = None"
  shows "IPNet_Contains
           \<lparr>IP = [0xfd, 0x00, 0x0e, 0xc2, 0, 0, 0, 0, 0, 0, 0, 0, 0, 0, 0x02, 0x54],
            Mask = [0xff, 0xff, 0xff, 0xff, 0xff, 0xff, 0xff, 0xff,
                    0xff, 0xff, 0xff, 0xff, 0xff, 0xff, 0xff, 0xff]\<rparr> ip
         = (ip = [0xfd, 0x00, 0x0e, 0xc2, 0, 0, 0, 0, 0, 0, 0, 0, 0, 0, 0x02, 0x54])"
proof (cases "length ip = 16")
  case False
  then show ?thesis
    using none by (auto simp: IPNet_Contains_def networkNumberAndMask_def To4_def)
next
  case True
  then obtain x0 x1 x2 x3 x4 x5 x6 x7 x8 x9 x10 x11 x12 x13 x14 x15
    where ip: "ip = [x0, x1, x2, x3, x4, x5, x6, x7, x8, x9, x10, x11, x12, x13, x14, x15]"
    using length_16 [OF True] by (elim exE) simp
  have nn: "To4 [0xfd, 0x00, 0x0e, 0xc2, 0, 0, 0, 0, 0, 0, 0, 0, 0, 0, 0x02, 0x54] = None"
    by (simp add: To4_def)
  show ?thesis
    using none unfolding ip
    by (simp add: IPNet_Contains_def networkNumberAndMask_def nn upt_16 and_ff)
qed

lemma in_ranges_None:
  "To4 ip = None \<Longrightarrow>
   in_ranges allRanges ip
     = (ip = [0xfd, 0x00, 0x0e, 0xc2, 0, 0, 0, 0, 0, 0, 0, 0, 0, 0, 0x02, 0x54])"
  by (simp add: allRanges_def ParseCIDR_values Contains_v4_None Contains_metadata_v6)

lemma IsLoopback_None:
  "To4 ip = None \<Longrightarrow> IsLoopback ip = (ip = [0, 0, 0, 0, 0, 0, 0, 0, 0, 0, 0, 0, 0, 0, 0, 1])"
  using To4_None_length [of ip]
  by (auto simp add: IsLoopback_def IP_Equal_def IPv6loopback_def)

lemma IsLinkLocalUnicast_None:
  "To4 ip = None \<Longrightarrow>
   IsLinkLocalUnicast ip = (length ip = 16 \<and> ip ! 0 = 0xfe \<and> 0x80 \<le> ip ! 1 \<and> ip ! 1 \<le> 0xbf)"
  by (simp add: IsLinkLocalUnicast_def and_c0)

lemma IsLinkLocalMulticast_None:
  "To4 ip = None \<Longrightarrow>
   IsLinkLocalMulticast ip = (length ip = 16 \<and> ip ! 0 = 0xff \<and> unat (ip ! 1) mod 16 = 2)"
  by (simp add: IsLinkLocalMulticast_def and_0f)

lemma IsPrivate_None:
  "To4 ip = None \<Longrightarrow> IsPrivate ip = (length ip = 16 \<and> (ip ! 0 = 0xfc \<or> ip ! 0 = 0xfd))"
  by (simp add: IsPrivate_def and_fe)


lemma rejected_address_None:
  "To4 ip = None \<Longrightarrow>
   rejected_address ip =
     (length ip = 16
      \<and> (ip = [0, 0, 0, 0, 0, 0, 0, 0, 0, 0, 0, 0, 0, 0, 0, 1]
         \<or> (ip ! 0 = 0xfe \<and> 0x80 \<le> ip ! 1 \<and> ip ! 1 \<le> 0xbf)
         \<or> (ip ! 0 = 0xfc \<or> ip ! 0 = 0xfd)
         \<or> ip = [0xfd, 0x00, 0x0e, 0xc2, 0, 0, 0, 0, 0, 0, 0, 0, 0, 0, 0x02, 0x54])
      \<or> length ip = 16 \<and> ip ! 0 = 0xff \<and> unat (ip ! 1) mod 16 = 2)"
  by (simp add: rejected_address_def specified_private_address_def
      link_local_multicast_address_def)


lemma isPrivateIP_disj:
  "isPrivateIP ip =
     (in_ranges allRanges ip \<or> IsLoopback ip \<or> IsLinkLocalUnicast ip
      \<or> IsLinkLocalMulticast ip \<or> IsPrivate ip)"
  by (simp add: isPrivateIP_def)

lemma regroup:
  "(lo \<Longrightarrow> L) \<Longrightarrow> (md \<Longrightarrow> L) \<Longrightarrow>
   (md \<or> lo \<or> (L \<and> u) \<or> (L \<and> m) \<or> (L \<and> p)) = (L \<and> (lo \<or> u \<or> p \<or> md) \<or> L \<and> m)"
  by blast

lemma isPrivateIP_None:
  assumes none: "To4 ip = None"
  shows "isPrivateIP ip = rejected_address ip"
proof -
  have lo: "length ip = 16" if "ip = [0, 0, 0, 0, 0, 0, 0, 0, 0, 0, 0, 0, 0, 0, 0, 1]"
    using that by simp
  have md: "length ip = 16"
    if "ip = [0xfd, 0x00, 0x0e, 0xc2, 0, 0, 0, 0, 0, 0, 0, 0, 0, 0, 0x02, 0x54]"
    using that by simp
  show ?thesis
    unfolding isPrivateIP_disj in_ranges_None [OF none] IsLoopback_None [OF none]
      IsLinkLocalUnicast_None [OF none] IsLinkLocalMulticast_None [OF none]
      IsPrivate_None [OF none] rejected_address_None [OF none]
    by (rule regroup) (fact lo md)+
qed

lemma isPrivateIP_rejected_address: "isPrivateIP ip = rejected_address ip"
proof (cases "To4 ip")
  case None
  then show ?thesis by (rule isPrivateIP_None)
next
  case (Some ip4)
  then obtain a b c d where ip4: "ip4 = [a, b, c, d]"
    using To4_Some by blast
  have "isPrivateIP ip = isPrivateIP ip4"
    using Some by (rule isPrivateIP_To4)
  also have "\<dots> = rejected_address ip4"
    unfolding ip4 by (rule isPrivateIP_v4)
  also have "\<dots> = rejected_address ip"
    using Some by (rule rejected_address_To4 [symmetric])
  finally show ?thesis .
qed

lemma check_ips_list_ex:
  "check_ips ips =
     (if list_ex isPrivateIP ips then Inl ''URLs pointing to private networks are not allowed''
      else Inr ())"
  by (induction ips) simp_all

subsection \<open>Registry check\<close>

lemma Hostname_examples:
  "Hostname \<lparr>Scheme = s, Host = ''localhost:8080''\<rparr> = ''localhost''"
  "Hostname \<lparr>Scheme = s, Host = ''127.0.0.1:8080''\<rparr> = ''127.0.0.1''"
  "Hostname \<lparr>Scheme = s, Host = ''example.com''\<rparr> = ''example.com''"
  "Hostname \<lparr>Scheme = s, Host = ''host''\<rparr> = ''host''"
  by (simp_all add: Hostname_def validOptionalPort_def is_digit_def HasPrefix_def HasSuffix_def)

lemma Contains_examples:
  "\<not> Contains ''my-registry'' ''://''"
  "\<not> Contains ''my_bad!name'' ''://''"
  "Contains ''https://host/path'' ''://''"
  "Contains ''sparse+https://host/index'' ''://''"
  "Contains ''http://localhost:8080/index'' ''://''"
  "Contains ''http://127.0.0.1:8080/index'' ''://''"
  "Contains ''http://example.com'' ''://''"
  by (simp_all add: HasPrefix_def)

lemma validName_examples:
  "validName_MatchString ''my-registry''"
  "\<not> validName_MatchString ''my_bad!name''"
  by (simp_all add: validName_MatchString_def is_letter_def is_digit_def)

lemma validateRegistryURL_name:
  "\<not> Contains r ''://'' \<Longrightarrow>
   validateRegistryURL env r =
     (if validName_MatchString r then Inr () else Inl ''invalid registry name format'')"
  by (simp add: validateRegistryURL_def)

lemma validateRegistryURL_url:
  "Contains r ''://'' \<Longrightarrow> url_Parse env r = Inr u \<Longrightarrow>
   validateRegistryURL env r =
     (if Hostname u = ''localhost'' \<or> Hostname u = ''127.0.0.1'' \<or> Hostname u = ''::1''
      then Inr ()
      else if Scheme u \<noteq> ''https'' \<and> Scheme u \<noteq> ''sparse+https''
      then Inl (''only HTTPS URLs are allowed (got '' @ Scheme u @ '')'')
      else case LookupIP env (Hostname u) of
             Inl err \<Rightarrow> Inr ()
           | Inr ips \<Rightarrow>
               if list_ex isPrivateIP ips
               then Inl ''URLs pointing to private networks are not allowed''
               else Inr ())"
  by (simp add: validateRegistryURL_def Let_def check_ips_list_ex split: sum.splits)

lemma simple_url_Parse_examples:
  "simple_url_Parse ''https://host/path'' = Inr \<lparr>Scheme = ''https'', Host = ''host''\<rparr>"
  "simple_url_Parse ''sparse+https://host/index''
     = Inr \<lparr>Scheme = ''sparse+https'', Host = ''host''\<rparr>"
  "simple_url_Parse ''http://localhost:8080/index''
     = Inr \<lparr>Scheme = ''http'', Host = ''localhost:8080''\<rparr>"
  "simple_url_Parse ''http://127.0.0.1:8080/index''
     = Inr \<lparr>Scheme = ''http'', Host = ''127.0.0.1:8080''\<rparr>"
  "simple_url_Parse ''http://example.com'' = Inr \<lparr>Scheme = ''http'', Host = ''example.com''\<rparr>"
  "simple_url_Parse ''https://example.com'' = Inr \<lparr>Scheme = ''https'', Host = ''example.com''\<rparr>"
  by code_simp+

text \<open>Claim C2, as stated, fails for its two \<open>https\<close> examples: they pass the scheme rule,
  but a host that is not a loopback name is resolved next, and when \<open>host\<close> resolves to
  the private address 10.0.0.1 both registries are rejected.\<close>

theorem https_examples_rejected_for_private_host:
  "url_Parse (example_env private_resolver) ''https://host/path''
     = Inr \<lparr>Scheme = ''https'', Host = ''host''\<rparr>
   \<and> url_Parse (example_env private_resolver) ''sparse+https://host/index''
       = Inr \<lparr>Scheme = ''sparse+https'', Host = ''host''\<rparr>
   \<and> LookupIP (example_env private_resolver) ''host'' = Inr [ [8, 8, 8, 8], [10, 0, 0, 1]]
   \<and> validateRegistryURL (example_env private_resolver) ''https://host/path''
       = Inl ''URLs pointing to private networks are not allowed''
   \<and> validateRegistryURL (example_env private_resolver) ''sparse+https://host/index''
       = Inl ''URLs pointing to private networks are not allowed''"
  by code_simp

text \<open>Claim C2, amended. A registry without \<open>://\<close> is accepted exactly when it matches the
  name pattern. For a registry with \<open>://\<close> that parses, a scheme other than \<open>https\<close> and
  \<open>sparse+https\<close> is rejected unless the host is \<open>localhost\<close>, \<open>127.0.0.1\<close> or \<open>::1\<close>, and
  with such a host every scheme is accepted. The examples: \<open>my-registry\<close> is accepted and
  \<open>my_bad!name\<close> rejected in every environment; where the parser reads the URLs as
  written (scheme, then host with its port), the two loopback URLs are accepted and
  \<open>http://example.com\<close> is rejected for its scheme; \<open>https://host/path\<close> and
  \<open>sparse+https://host/index\<close> pass the scheme rule, and are accepted exactly when the
  resolution of \<open>host\<close> fails or returns no private address.\<close>

theorem registry_name_pattern_and_scheme_rule:
  "(\<not> Contains r1 ''://'' \<longrightarrow>
      (validateRegistryURL env r1 = Inr ()) = validName_MatchString r1)
   \<and> (Contains r2 ''://'' \<and> url_Parse env r2 = Inr u2
        \<and> Scheme u2 \<noteq> ''https'' \<and> Scheme u2 \<noteq> ''sparse+https''
        \<and> Hostname u2 \<noteq> ''localhost'' \<and> Hostname u2 \<noteq> ''127.0.0.1'' \<and> Hostname u2 \<noteq> ''::1''
      \<longrightarrow> validateRegistryURL env r2
            = Inl (''only HTTPS URLs are allowed (got '' @ Scheme u2 @ '')''))
   \<and> (Contains r3 ''://'' \<and> url_Parse env r3 = Inr u3
        \<and> (Hostname u3 = ''localhost'' \<or> Hostname u3 = ''127.0.0.1'' \<or> Hostname u3 = ''::1'')
      \<longrightarrow> validateRegistryURL env r3 = Inr ())
   \<and> validateRegistryURL env ''my-registry'' = Inr ()
   \<and> validateRegistryURL env ''my_bad!name'' = Inl ''invalid registry name format''
   \<and> (url_Parse env ''http://localhost:8080/index''
          = Inr \<lparr>Scheme = ''http'', Host = ''localhost:8080''\<rparr>
      \<longrightarrow> validateRegistryURL env ''http://localhost:8080/index'' = Inr ())
   \<and> (url_Parse env ''http://127.0.0.1:8080/index''
          = Inr \<lparr>Scheme = ''http'', Host = ''127.0.0.1:8080''\<rparr>
      \<longrightarrow> validateRegistryURL env ''http://127.0.0.1:8080/index'' = Inr ())
   \<and> (url_Parse env ''http://example.com'' = Inr \<lparr>Scheme = ''http'', Host = ''example.com''\<rparr>
      \<longrightarrow> validateRegistryURL env ''http://example.com''
            = Inl ''only HTTPS URLs are allowed (got http)'')
   \<and> (url_Parse env ''https://host/path'' = Inr \<lparr>Scheme = ''https'', Host = ''host''\<rparr>
      \<longrightarrow> (validateRegistryURL env ''https://host/path'' = Inr ())
            = (case LookupIP env ''host'' of
                 Inl err \<Rightarrow> True
               | Inr ips \<Rightarrow> \<not> list_ex isPrivateIP ips))
   \<and> (url_Parse env ''sparse+https://host/index''
          = Inr \<lparr>Scheme = ''sparse+https'', Host = ''host''\<rparr>
      \<longrightarrow> (validateRegistryURL env ''sparse+https://host/index'' = Inr ())
            = (case LookupIP env ''host'' of
                 Inl err \<Rightarrow> True
               | Inr ips \<Rightarrow> \<not> list_ex isPrivateIP ips))"
proof (intro conjI impI)
  assume "\<not> Contains r1 ''://''"
  then show "(validateRegistryURL env r1 = Inr ()) = validName_MatchString r1"
    by (simp add: validateRegistryURL_name)
next
  assume "Contains r2 ''://'' \<and> url_Parse env r2 = Inr u2
        \<and> Scheme u2 \<noteq> ''https'' \<and> Scheme u2 \<noteq> ''sparse+https''
        \<and> Hostname u2 \<noteq> ''localhost'' \<and> Hostname u2 \<noteq> ''127.0.0.1'' \<and> Hostname u2 \<noteq> ''::1''"
  then show "validateRegistryURL env r2
            = Inl (''only HTTPS URLs are allowed (got '' @ Scheme u2 @ '')'')"
    by (simp add: validateRegistryURL_url)
next
  assume "Contains r3 ''://'' \<and> url_Parse env r3 = Inr u3
        \<and> (Hostname u3 = ''localhost'' \<or> Hostname u3 = ''127.0.0.1'' \<or> Hostname u3 = ''::1'')"
  then show "validateRegistryURL env r3 = Inr ()"
    by (simp add: validateRegistryURL_url)
next
  show "validateRegistryURL env ''my-registry'' = Inr ()"
    by (simp only: validateRegistryURL_name [OF Contains_examples(1)] validName_examples if_True)
  show "validateRegistryURL env ''my_bad!name'' = Inl ''invalid registry name format''"
    by (simp only: validateRegistryURL_name [OF Contains_examples(2)] validName_examples if_False)
next
  assume p: "url_Parse env ''http://localhost:8080/index''
          = Inr \<lparr>Scheme = ''http'', Host = ''localhost:8080''\<rparr>"
  show "validateRegistryURL env ''http://localhost:8080/index'' = Inr ()"
    by (simp only: validateRegistryURL_url [OF Contains_examples(5) p] Hostname_examples
        simp_thms if_True)
next
  assume p: "url_Parse env ''http://127.0.0.1:8080/index''
          = Inr \<lparr>Scheme = ''http'', Host = ''127.0.0.1:8080''\<rparr>"
  show "validateRegistryURL env ''http://127.0.0.1:8080/index'' = Inr ()"
    by (simp only: validateRegistryURL_url [OF Contains_examples(6) p] Hostname_examples
        simp_thms if_True)
next
  assume p: "url_Parse env ''http://example.com'' = Inr \<lparr>Scheme = ''http'', Host = ''example.com''\<rparr>"
  show "validateRegistryURL env ''http://example.com''
            = Inl ''only HTTPS URLs are allowed (got http)''"
    by (simp add: validateRegistryURL_url [OF Contains_examples(7) p] Hostname_examples)
next
  assume p: "url_Parse env ''https://host/path'' = Inr \<lparr>Scheme = ''https'', Host = ''host''\<rparr>"
  show "(validateRegistryURL env ''https://host/path'' = Inr ())
            = (case LookupIP env ''host'' of
                 Inl err \<Rightarrow> True
               | Inr ips \<Rightarrow> \<not> list_ex isPrivateIP ips)"
    by (auto simp add: validateRegistryURL_url [OF Contains_examples(3) p] Hostname_examples
        split: sum.splits)
next
  assume p: "url_Parse env ''sparse+https://host/index''
          = Inr \<lparr>Scheme = ''sparse+https'', Host = ''host''\<rparr>"
  show "(validateRegistryURL env ''sparse+https://host/index'' = Inr ())
            = (case LookupIP env ''host'' of
                 Inl err \<Rightarrow> True
               | Inr ips \<Rightarrow> \<not> list_ex isPrivateIP ips)"
    by (auto simp add: validateRegistryURL_url [OF Contains_examples(4) p] Hostname_examples
        split: sum.splits)
qed

theorem registry_name_pattern_and_scheme_rule_witness:
  "\<not> Contains ''my-registry'' ''://''
   \<and> Contains ''http://example.com'' ''://''
   \<and> url_Parse (example_env no_such_host) ''http://example.com''
       = Inr \<lparr>Scheme = ''http'', Host = ''example.com''\<rparr>
   \<and> Contains ''http://localhost:8080/index'' ''://''
   \<and> url_Parse (example_env no_such_host) ''http://localhost:8080/index''
       = Inr \<lparr>Scheme = ''http'', Host = ''localhost:8080''\<rparr>
   \<and> url_Parse (example_env no_such_host) ''http://127.0.0.1:8080/index''
       = Inr \<lparr>Scheme = ''http'', Host = ''127.0.0.1:8080''\<rparr>
   \<and> url_Parse (example_env no_such_host) ''https://host/path''
       = Inr \<lparr>Scheme = ''https'', Host = ''host''\<rparr>
   \<and> url_Parse (example_env no_such_host) ''sparse+https://host/index''
       = Inr \<lparr>Scheme = ''sparse+https'', Host = ''host''\<rparr>
   \<and> LookupIP (example_env no_such_host) ''host'' = Inl ''no such host''
   \<and> validateRegistryURL (example_env no_such_host) ''my-registry'' = Inr ()
   \<and> validateRegistryURL (example_env no_such_host) ''http://example.com''
       = Inl ''only HTTPS URLs are allowed (got http)''
   \<and> validateRegistryURL (example_env no_such_host) ''http://localhost:8080/index'' = Inr ()
   \<and> validateRegistryURL (example_env no_such_host) ''http://127.0.0.1:8080/index'' = Inr ()
   \<and> validateRegistryURL (example_env no_such_host) ''https://host/path'' = Inr ()
   \<and> validateRegistryURL (example_env no_such_host) ''sparse+https://host/index'' = Inr ()"
  using registry_name_pattern_and_scheme_rule
    [of "''my-registry''" "example_env no_such_host"
        "''http://example.com''" "\<lparr>Scheme = ''http'', Host = ''example.com''\<rparr>"
        "''http://localhost:8080/index''" "\<lparr>Scheme = ''http'', Host = ''localhost:8080''\<rparr>"]
  by (simp add: Contains_examples Hostname_examples simple_url_Parse_examples
      example_env_def no_such_host_def del: Contains.simps)

text \<open>Claim C3, as stated, fails: the code also rejects link-local multicast addresses,
  which are in none of the listed ranges. With a resolver that answers 224.0.0.1, an
  \<open>https\<close> registry on a host that is not a loopback name is rejected.\<close>

theorem multicast_address_rejected_outside_listed_ranges:
  "Contains ''https://example.com'' ''://''
   \<and> url_Parse (example_env multicast_resolver) ''https://example.com''
       = Inr \<lparr>Scheme = ''https'', Host = ''example.com''\<rparr>
   \<and> Hostname \<lparr>Scheme = ''https'', Host = ''example.com''\<rparr> = ''example.com''
   \<and> LookupIP (example_env multicast_resolver) ''example.com'' = Inr [ [224, 0, 0, 1]]
   \<and> validateRegistryURL (example_env multicast_resolver) ''https://example.com''
       = Inl ''URLs pointing to private networks are not allowed''
   \<and> \<not> list_ex specified_private_address [ [224, 0, 0, 1]]"
  by code_simp

text \<open>Claim C3, amended. For a registry URL that parses, with the scheme \<open>https\<close> or
  \<open>sparse+https\<close> and a host other than \<open>localhost\<close>, \<open>127.0.0.1\<close> and \<open>::1\<close>: the URL is
  accepted when the resolution of the host fails; when it returns addresses, the URL is
  rejected exactly when one of them lies in a listed range (10.0.0.0/8, 172.16.0.0/12,
  192.168.0.0/16, 127.0.0.0/8, 169.254.0.0/16, 0.0.0.0/8, IPv6 loopback, link-local or
  unique-local, or a metadata address) or is a link-local multicast address (224.0.0.0/24,
  or IPv6 multicast of link-local scope). With a loopback host the URL is accepted
  whatever the resolver would answer.\<close>

theorem registry_resolution_check:
  assumes url: "Contains r ''://''"
    and parse: "url_Parse env r = Inr u"
    and scheme: "Scheme u = ''https'' \<or> Scheme u = ''sparse+https''"
    and host: "Hostname u \<noteq> ''localhost'' \<and> Hostname u \<noteq> ''127.0.0.1'' \<and> Hostname u \<noteq> ''::1''"
  shows "validateRegistryURL env r =
           (case LookupIP env (Hostname u) of
              Inl err \<Rightarrow> Inr ()
            | Inr ips \<Rightarrow>
                if list_ex rejected_address ips
                then Inl ''URLs pointing to private networks are not allowed''
                else Inr ())
         \<and> isPrivateIP ip = rejected_address ip
         \<and> (Contains r' ''://'' \<and> url_Parse env r' = Inr u'
              \<and> (Hostname u' = ''localhost'' \<or> Hostname u' = ''127.0.0.1'' \<or> Hostname u' = ''::1'')
            \<longrightarrow> validateRegistryURL (env\<lparr>LookupIP := lookup\<rparr>) r' = Inr ())"
proof (intro conjI impI)
  have eq: "isPrivateIP = rejected_address"
    by (rule ext) (rule isPrivateIP_rejected_address)
  show "validateRegistryURL env r =
           (case LookupIP env (Hostname u) of
              Inl err \<Rightarrow> Inr ()
            | Inr ips \<Rightarrow>
                if list_ex rejected_address ips
                then Inl ''URLs pointing to private networks are not allowed''
                else Inr ())"
    using scheme host
    by (auto simp add: validateRegistryURL_url [OF url parse] eq split: sum.splits)
  show "isPrivateIP ip = rejected_address ip"
    by (rule isPrivateIP_rejected_address)
next
  assume a: "Contains r' ''://'' \<and> url_Parse env r' = Inr u'
              \<and> (Hostname u' = ''localhost'' \<or> Hostname u' = ''127.0.0.1'' \<or> Hostname u' = ''::1'')"
  then have c: "Contains r' ''://''"
    and p: "url_Parse (env\<lparr>LookupIP := lookup\<rparr>) r' = Inr u'"
    by simp_all
  show "validateRegistryURL (env\<lparr>LookupIP := lookup\<rparr>) r' = Inr ()"
    using a by (simp add: validateRegistryURL_url [OF c p])
qed

theorem registry_resolution_check_witness:
  "Contains ''https://host/path'' ''://''
   \<and> url_Parse (example_env private_resolver) ''https://host/path''
       = Inr \<lparr>Scheme = ''https'', Host = ''host''\<rparr>
   \<and> Hostname \<lparr>Scheme = ''https'', Host = ''host''\<rparr> = ''host''
   \<and> LookupIP (example_env private_resolver) ''host'' = Inr [ [8, 8, 8, 8], [10, 0, 0, 1]]
   \<and> list_ex rejected_address [ [8, 8, 8, 8], [10, 0, 0, 1]]
   \<and> validateRegistryURL (example_env private_resolver) ''https://host/path''
       = Inl ''URLs pointing to private networks are not allowed''
   \<and> Contains ''http://localhost:8080/index'' ''://''
   \<and> url_Parse (example_env private_resolver) ''http://localhost:8080/index''
       = Inr \<lparr>Scheme = ''http'', Host = ''localhost:8080''\<rparr>
   \<and> validateRegistryURL (example_env private_resolver) ''http://localhost:8080/index'' = Inr ()"
proof -
  have h1: "Contains ''https://host/path'' ''://''"
    by (rule Contains_examples)
  have h2: "url_Parse (example_env private_resolver) ''https://host/path''
       = Inr \<lparr>Scheme = ''https'', Host = ''host''\<rparr>"
    by (simp add: example_env_def simple_url_Parse_examples)
  have h3: "Scheme \<lparr>Scheme = ''https'', Host = ''host''\<rparr> = ''https''
            \<or> Scheme \<lparr>Scheme = ''https'', Host = ''host''\<rparr> = ''sparse+https''"
    by simp
  have h4: "Hostname \<lparr>Scheme = ''https'', Host = ''host''\<rparr> \<noteq> ''localhost''
            \<and> Hostname \<lparr>Scheme = ''https'', Host = ''host''\<rparr> \<noteq> ''127.0.0.1''
            \<and> Hostname \<lparr>Scheme = ''https'', Host = ''host''\<rparr> \<noteq> ''::1''"
    by (simp add: Hostname_examples)
  have h5: "list_ex rejected_address [ [8, 8, 8, 8], [10, 0, 0, 1]]"
    by (simp add: rejected_address_def specified_private_address_def)
  have h6: "url_Parse (example_env private_resolver) ''http://localhost:8080/index''
       = Inr \<lparr>Scheme = ''http'', Host = ''localhost:8080''\<rparr>"
    by (simp add: example_env_def simple_url_Parse_examples)
  have h7: "example_env private_resolver\<lparr>LookupIP := private_resolver\<rparr>
              = example_env private_resolver"
    by (simp add: example_env_def)
  show ?thesis
    using h1 h2 h5 h6 h7
      registry_resolution_check
        [OF h1 h2 h3 h4, where r' = "''http://localhost:8080/index''"
           and u' = "\<lparr>Scheme = ''http'', Host = ''localhost:8080''\<rparr>"
           and lookup = private_resolver]
    by (simp add: Contains_examples Hostname_examples example_env_def private_resolver_def
        del: Contains.simps)
qed

end
